theory Spec2Isabelle
  imports Complex_Main
begin

section \<open>Python values\<close>

text \<open>
  The exceptions the script can raise by itself (indexing an empty list, the minimum of an
  empty list, a division by zero) and the two the persistence collaborator raises on reload.
\<close>

datatype error = IndexError | ValueError | ZeroDivisionError | FileNotFoundError | RuntimeError

text \<open>
  A Python float is either not-a-number or a number. \<open>Fin r\<close> is a float whose value is
  the real \<open>r\<close>: the rounding of \<open>+\<close> and \<open>/\<close> and the two infinities are not modelled.
  \<open>NaN\<close> is kept apart because \<open>==\<close> and \<open><\<close> are both false on it, which is not
  what HOL's equality does.
\<close>

datatype pyfloat = NaN | Fin real

fun fl_eq :: "pyfloat \<Rightarrow> pyfloat \<Rightarrow> bool" where
  "fl_eq (Fin a) (Fin b) = (a = b)"
| "fl_eq _ _ = False"

fun fl_lt :: "pyfloat \<Rightarrow> pyfloat \<Rightarrow> bool" where
  "fl_lt (Fin a) (Fin b) = (a < b)"
| "fl_lt _ _ = False"

fun fl_add :: "pyfloat \<Rightarrow> pyfloat \<Rightarrow> pyfloat" where
  "fl_add (Fin a) (Fin b) = Fin (a + b)"
| "fl_add _ _ = NaN"

text \<open>\<open>sum(xs)\<close>: a left fold of \<open>+\<close> that starts from the integer 0.\<close>

definition py_sum :: "pyfloat list \<Rightarrow> pyfloat" where
  "py_sum xs = foldl fl_add (Fin 0) xs"

text \<open>\<open>x / n\<close> for a length \<open>n\<close>: true division, which raises on \<open>n = 0\<close> whatever \<open>x\<close> is.\<close>

definition py_truediv :: "pyfloat \<Rightarrow> nat \<Rightarrow> error + pyfloat" where
  "py_truediv x n =
     (if n = 0 then Inl ZeroDivisionError
      else Inr (case x of NaN \<Rightarrow> NaN | Fin r \<Rightarrow> Fin (r / real n)))"

text \<open>
  \<open>min(xs)\<close>: ValueError on the empty list; otherwise the first element is the candidate
  and a later element replaces it only when it is \<open><\<close> the candidate.
\<close>

definition py_min :: "pyfloat list \<Rightarrow> error + pyfloat" where
  "py_min xs =
     (case xs of
        [] \<Rightarrow> Inl ValueError
      | x # rest \<Rightarrow> Inr (foldl (\<lambda>cur it. if fl_lt it cur then it else cur) x rest))"

text \<open>\<open>xs[-1]\<close>.\<close>

definition py_last :: "'a list \<Rightarrow> error + 'a" where
  "py_last xs = (case xs of [] \<Rightarrow> Inl IndexError | _ # _ \<Rightarrow> Inr (last xs))"


section \<open>Modules, parameters and models\<close>

text \<open>
  The layers the two factories build: \<open>nn.Flatten()\<close>, \<open>nn.Linear(in, out)\<close>,
  \<open>nn.ReLU()\<close>, \<open>nn.Dropout(p)\<close> and \<open>nn.Sequential(...)\<close>, which nests.
\<close>

datatype module =
    Flatten
  | Linear int int
  | ReLU
  | Dropout pyfloat
  | Sequential "module list"

text \<open>The layers in the order a forward pass applies them: the leaves of the module tree.\<close>

fun leaves :: "module \<Rightarrow> module list" where
  "leaves (Sequential ms) = concat (map leaves ms)"
| "leaves m = [m]"

fun is_Linear :: "module \<Rightarrow> bool" where
  "is_Linear (Linear i out) = True"
| "is_Linear _ = False"

text \<open>
  Modelled from the spec: the parameter snapshot of the numerical collaborator. A
  parameter is named by the path of child indices that leads to its layer and by
  \<open>weight\<close> or \<open>bias\<close>; an affine transform of input width \<open>i\<close> and output
  width \<open>out\<close> owns a weight of shape \<open>[out, i]\<close> and a bias of shape \<open>[out]\<close>; the
  other layers own nothing. The values of a tensor are of an arbitrary type \<open>'v\<close>.
\<close>

type_synonym key = "nat list \<times> string"
type_synonym 'v tensor = "int list \<times> 'v"
type_synonym 'v state_dict = "(key \<times> 'v tensor) list"

fun param_sig :: "nat list \<Rightarrow> module \<Rightarrow> (key \<times> int list) list"
  and param_sig_seq :: "nat list \<Rightarrow> nat \<Rightarrow> module list \<Rightarrow> (key \<times> int list) list" where
  "param_sig p (Linear i out) = [((p, ''weight''), [out, i]), ((p, ''bias''), [out])]"
| "param_sig p (Sequential ms) = param_sig_seq p 0 ms"
| "param_sig p Flatten = []"
| "param_sig p ReLU = []"
| "param_sig p (Dropout q) = []"
| "param_sig_seq p k [] = []"
| "param_sig_seq p k (m # ms) = param_sig (p @ [k]) m @ param_sig_seq p (Suc k) ms"

text \<open>
  An \<open>nn.Module\<close> object: its layers, the current values of its parameters, the
  gradients accumulated on them (\<open>None\<close> when cleared) and the training-mode flag.
\<close>

record 'v model =
  modules :: module
  params :: "'v state_dict"
  grads :: "'v state_dict option"
  training :: bool

definition state_dict :: "'v model \<Rightarrow> 'v state_dict" where
  "state_dict m = params m"

text \<open>
  The numerical collaborator, taken as a parameter. Its operations are assumed to return.
  \<open>'g\<close> is the state of its random generator, \<open>'x\<close> a batch of images, \<open>'y\<close> a batch
  of predictions, \<open>'o\<close> the state of an optimizer. Stochastic zeroing is active only in
  training mode, so the forward pass of evaluation mode neither reads nor advances the
  generator.
\<close>

record ('v, 'g, 'x, 'y, 'o) framework =
  init_data :: "'g \<Rightarrow> key \<Rightarrow> int list \<Rightarrow> 'v \<times> 'g"
  forward_eval :: "module \<Rightarrow> 'v state_dict \<Rightarrow> 'x \<Rightarrow> 'y"
  forward_train :: "module \<Rightarrow> 'v state_dict \<Rightarrow> 'g \<Rightarrow> 'x \<Rightarrow> 'y \<times> 'g"
  cross_entropy :: "'y \<Rightarrow> int list \<Rightarrow> pyfloat"
  argmax :: "'y \<Rightarrow> int list"
  autograd :: "module \<Rightarrow> 'v state_dict \<Rightarrow> bool \<Rightarrow> 'g \<Rightarrow> 'x \<Rightarrow> int list \<Rightarrow> 'v state_dict"
  grad_add :: "'v state_dict \<Rightarrow> 'v state_dict \<Rightarrow> 'v state_dict"
  opt_step :: "'o \<Rightarrow> 'v state_dict \<Rightarrow> 'v state_dict option \<Rightarrow> 'v state_dict \<times> 'o"

text \<open>Allocating the parameters of a module tree, in the order of \<open>param_sig\<close>.\<close>

fun init_params ::
  "('v, 'g, 'x, 'y, 'o) framework \<Rightarrow> 'g \<Rightarrow> (key \<times> int list) list \<Rightarrow> 'v state_dict \<times> 'g" where
  "init_params fw g [] = ([], g)"
| "init_params fw g ((k, shape) # rest) =
     (let (d, g1) = init_data fw g k shape;
          (sd, g2) = init_params fw g1 rest
      in ((k, (shape, d)) # sd, g2))"

text \<open>A module as its constructor leaves it: parameters allocated, no gradient, training mode.\<close>

definition new_module ::
  "('v, 'g, 'x, 'y, 'o) framework \<Rightarrow> 'g \<Rightarrow> module \<Rightarrow> 'v model \<times> 'g" where
  "new_module fw g mods =
     (let (sd, g1) = init_params fw g (param_sig [] mods)
      in (\<lparr>modules = mods, params = sd, grads = None, training = True\<rparr>, g1))"


section \<open>Model factories\<close>

text \<open>
  \<open>create_model(hidden_dims)\<close>. \<open>hidden_dims[0]\<close> raises IndexError on an empty list,
  before any layer is built. The placement of the tensors on a device is the
  collaborator's and is not modelled.
\<close>

definition create_model ::
  "('v, 'g, 'x, 'y, 'o) framework \<Rightarrow> 'g \<Rightarrow> int list \<Rightarrow> error + ('v model \<times> 'g)" where
  "create_model fw g hidden_dims =
     (case hidden_dims of
        [] \<Rightarrow> Inl IndexError
      | h0 # _ \<Rightarrow>
          Inr (new_module fw g
            (Sequential
              ([Flatten, Linear (28 * 28) h0, ReLU]
               @ map (\<lambda>(in_feats, out_feats). Sequential [Linear in_feats out_feats, ReLU])
                   (zip (butlast hidden_dims) (tl hidden_dims))
               @ [Linear (last hidden_dims) 10]))))"

text \<open>\<open>create_model_with_dropout(hidden_dims, p)\<close>.\<close>

definition create_model_with_dropout ::
  "('v, 'g, 'x, 'y, 'o) framework \<Rightarrow> 'g \<Rightarrow> int list \<Rightarrow> pyfloat \<Rightarrow> error + ('v model \<times> 'g)" where
  "create_model_with_dropout fw g hidden_dims p =
     (case hidden_dims of
        [] \<Rightarrow> Inl IndexError
      | h0 # _ \<Rightarrow>
          Inr (new_module fw g
            (Sequential
              ([Flatten, Linear (28 * 28) h0, ReLU, Dropout p]
               @ map (\<lambda>(in_feats, out_feats).
                        Sequential [Linear in_feats out_feats, ReLU, Dropout p])
                   (zip (butlast hidden_dims) (tl hidden_dims))
               @ [Linear (last hidden_dims) 10]))))"


section \<open>Epoch runner\<close>

type_synonym 'x batch = "'x \<times> int list"

text \<open>\<open>model(batch)\<close>: the forward pass of the mode the model is in.\<close>

definition call_model ::
  "('v, 'g, 'x, 'y, 'o) framework \<Rightarrow> 'v model \<Rightarrow> 'g \<Rightarrow> 'x \<Rightarrow> 'y \<times> 'g" where
  "call_model fw m g x =
     (if training m then forward_train fw (modules m) (params m) g x
      else (forward_eval fw (modules m) (params m) x, g))"

text \<open>
  \<open>optimizer.zero_grad()\<close>, \<open>loss.backward()\<close> and \<open>optimizer.step()\<close>. The optimizer
  is the one built over this model's parameters. \<open>backward\<close> adds the gradient of the
  loss just computed (a forward pass that started from generator state \<open>g\<close>) to what is
  already accumulated.
\<close>

definition zero_grad :: "'v model \<Rightarrow> 'v model" where
  "zero_grad m = m\<lparr>grads := None\<rparr>"

definition backward ::
  "('v, 'g, 'x, 'y, 'o) framework \<Rightarrow> 'v model \<Rightarrow> 'g \<Rightarrow> 'x \<Rightarrow> int list \<Rightarrow> 'v model" where
  "backward fw m g x labels =
     (let d = autograd fw (modules m) (params m) (training m) g x labels
      in m\<lparr>grads := Some (case grads m of None \<Rightarrow> d | Some acc \<Rightarrow> grad_add fw acc d)\<rparr>)"

definition step ::
  "('v, 'g, 'x, 'y, 'o) framework \<Rightarrow> 'o \<Rightarrow> 'v model \<Rightarrow> 'v model \<times> 'o" where
  "step fw opt m =
     (let (sd, opt1) = opt_step fw opt (params m) (grads m) in (m\<lparr>params := sd\<rparr>, opt1))"

text \<open>The loop of \<open>train_one_epoch\<close> over the batches the loader yields.\<close>

fun train_batches ::
  "('v, 'g, 'x, 'y, 'o) framework \<Rightarrow> 'v model \<times> 'o \<times> 'g \<Rightarrow> pyfloat list \<Rightarrow> 'x batch list
     \<Rightarrow> ('v model \<times> 'o \<times> 'g) \<times> pyfloat list" where
  "train_batches fw s losses [] = (s, losses)"
| "train_batches fw (m, opt, g) losses ((batch, labels) # rest) =
     (let m1 = zero_grad m;
          (preds, g1) = call_model fw m1 g batch;
          loss = cross_entropy fw preds labels;
          m2 = backward fw m1 g batch labels;
          (m3, opt1) = step fw opt m2
      in train_batches fw (m3, opt1, g1) (losses @ [loss]) rest)"

text \<open>
  \<open>train_one_epoch(model, dataloader, optimizer)\<close>, on the sequence of batches that this
  iteration over the loader yields. It returns the average loss, and the model, optimizer
  and generator as the call leaves them.
\<close>

definition train_one_epoch ::
  "('v, 'g, 'x, 'y, 'o) framework \<Rightarrow> 'v model \<Rightarrow> 'x batch list \<Rightarrow> 'o \<Rightarrow> 'g
     \<Rightarrow> error + (pyfloat \<times> 'v model \<times> 'o \<times> 'g)" where
  "train_one_epoch fw m dataloader optimizer g =
     (let (s, losses) = train_batches fw (m, optimizer, g) [] dataloader
      in case py_truediv (py_sum losses) (length losses) of
           Inl e \<Rightarrow> Inl e
         | Inr avg_loss \<Rightarrow> Inr (avg_loss, s))"

text \<open>
  What the design asks of one batch, in its own words: predictions, the loss, the gradient
  of that loss, one optimizer step with that gradient alone.
\<close>

definition batch_pass ::
  "('v, 'g, 'x, 'y, 'o) framework \<Rightarrow> 'v model \<times> 'o \<times> 'g \<Rightarrow> 'x batch
     \<Rightarrow> pyfloat \<times> 'v model \<times> 'o \<times> 'g" where
  "batch_pass fw s b =
     (case (s, b) of ((m, opt, g), (x, labels)) \<Rightarrow>
        (let (preds, g1) = call_model fw m g x;
             d = autograd fw (modules m) (params m) (training m) g x labels;
             (sd, opt1) = opt_step fw opt (params m) (Some d)
         in (cross_entropy fw preds labels, (m\<lparr>grads := Some d, params := sd\<rparr>, opt1, g1))))"

text \<open>One pass over a sequence: the per-batch losses in sequence order, and the final state.\<close>

fun epoch_pass ::
  "('v, 'g, 'x, 'y, 'o) framework \<Rightarrow> 'v model \<times> 'o \<times> 'g \<Rightarrow> 'x batch list
     \<Rightarrow> pyfloat list \<times> 'v model \<times> 'o \<times> 'g" where
  "epoch_pass fw s [] = ([], s)"
| "epoch_pass fw s (b # bs) =
     (let (loss, s1) = batch_pass fw s b;
          (ls, s2) = epoch_pass fw s1 bs
      in (loss # ls, s2))"


section \<open>Evaluator\<close>

definition model_eval :: "'v model \<Rightarrow> 'v model" where
  "model_eval m = m\<lparr>training := False\<rparr>"

definition model_train :: "'v model \<Rightarrow> 'v model" where
  "model_train m = m\<lparr>training := True\<rparr>"

text \<open>
  The loop of \<open>validate\<close>. \<open>accuracy\<close> counts the positions where the arg-max prediction
  equals the label; dividing it by \<open>len(labels)\<close> raises on a batch that has no label.
\<close>

fun validate_batches ::
  "('v, 'g, 'x, 'y, 'o) framework \<Rightarrow> 'v model \<Rightarrow> 'g \<Rightarrow> pyfloat list \<times> pyfloat list
     \<Rightarrow> 'x batch list \<Rightarrow> error + ((pyfloat list \<times> pyfloat list) \<times> 'g)" where
  "validate_batches fw m g acc [] = Inr (acc, g)"
| "validate_batches fw m g (losses, accuracies) ((batch, labels) # rest) =
     (let (preds, g1) = call_model fw m g batch;
          loss = cross_entropy fw preds labels;
          accuracy = length (filter (\<lambda>(a, l). a = l) (zip (argmax fw preds) labels))
      in case py_truediv (Fin (real accuracy)) (length labels) of
           Inl e \<Rightarrow> Inl e
         | Inr a \<Rightarrow> validate_batches fw m g1 (losses @ [loss], accuracies @ [a]) rest)"

text \<open>
  \<open>validate(model, dataloader)\<close>: the pair (average loss, average accuracy), and the model
  and generator as the call leaves them.
\<close>

definition validate ::
  "('v, 'g, 'x, 'y, 'o) framework \<Rightarrow> 'v model \<Rightarrow> 'g \<Rightarrow> 'x batch list
     \<Rightarrow> error + ((pyfloat \<times> pyfloat) \<times> 'v model \<times> 'g)" where
  "validate fw m g dataloader =
     (let m1 = model_eval m
      in case validate_batches fw m1 g ([], []) dataloader of
           Inl e \<Rightarrow> Inl e
         | Inr ((losses, accuracies), g1) \<Rightarrow>
             (let m2 = model_train m1
              in case py_truediv (py_sum losses) (length losses) of
                   Inl e \<Rightarrow> Inl e
                 | Inr avg_loss \<Rightarrow>
                     (case py_truediv (py_sum accuracies) (length accuracies) of
                        Inl e \<Rightarrow> Inl e
                      | Inr avg_acc \<Rightarrow> Inr ((avg_loss, avg_acc), m2, g1))))"

text \<open>
  The quantities of one batch in evaluation mode: its loss, the number of correct
  predictions, and that number as a fraction of the batch.
\<close>

definition eval_loss :: "('v, 'g, 'x, 'y, 'o) framework \<Rightarrow> 'v model \<Rightarrow> 'x batch \<Rightarrow> pyfloat" where
  "eval_loss fw m b =
     cross_entropy fw (forward_eval fw (modules m) (params m) (fst b)) (snd b)"

definition eval_correct :: "('v, 'g, 'x, 'y, 'o) framework \<Rightarrow> 'v model \<Rightarrow> 'x batch \<Rightarrow> nat" where
  "eval_correct fw m b =
     length (filter (\<lambda>(a, l). a = l)
       (zip (argmax fw (forward_eval fw (modules m) (params m) (fst b))) (snd b)))"

definition eval_accuracy :: "('v, 'g, 'x, 'y, 'o) framework \<Rightarrow> 'v model \<Rightarrow> 'x batch \<Rightarrow> real" where
  "eval_accuracy fw m b = real (eval_correct fw m b) / real (length (snd b))"


section \<open>Training orchestrator\<close>

text \<open>
  An observer is called with the model, the epoch, the two histories and the last
  validation accuracy. The model and the two lists are the very objects the orchestrator
  holds, so an observer can change them in place. Its result is therefore the world
  outside (\<open>'w\<close>: files, the terminal) together with the model and the two lists as the
  call leaves them. It may raise.
\<close>

type_synonym ('v, 'w) observer =
  "'w \<Rightarrow> 'v model \<Rightarrow> int \<Rightarrow> pyfloat list \<Rightarrow> pyfloat list \<Rightarrow> pyfloat
     \<Rightarrow> error + ('w \<times> 'v model \<times> pyfloat list \<times> pyfloat list)"

text \<open>
  The loop of \<open>train\<close> over the epochs of \<open>range(n_epochs)\<close>. A loader is iterated once
  per epoch; \<open>train_loader epoch\<close> and \<open>val_loader epoch\<close> are the sequences of batches
  that the iteration of that epoch yields (a shuffling loader yields another order each
  time). An error of the epoch runner, the evaluator or the observer ends the call. The
  next epoch goes on with the model and the lists as the observer left them.
\<close>

fun train_epochs ::
  "('v, 'g, 'x, 'y, 'o) framework \<Rightarrow> (int \<Rightarrow> 'x batch list) \<Rightarrow> (int \<Rightarrow> 'x batch list)
     \<Rightarrow> ('v, 'w) observer \<Rightarrow> 'v model \<times> 'o \<times> 'g \<times> 'w \<times> pyfloat list \<times> pyfloat list \<Rightarrow> int list
     \<Rightarrow> error + ('v model \<times> 'o \<times> 'g \<times> 'w \<times> pyfloat list \<times> pyfloat list)" where
  "train_epochs fw train_loader val_loader callback s [] = Inr s"
| "train_epochs fw train_loader val_loader callback (m, opt, g, w, train_losses, val_losses)
       (epoch # rest) =
     (case train_one_epoch fw m (train_loader epoch) opt g of
        Inl e \<Rightarrow> Inl e
      | Inr (train_loss, m1, opt1, g1) \<Rightarrow>
          (case validate fw m1 g1 (val_loader epoch) of
             Inl e \<Rightarrow> Inl e
           | Inr ((val_loss, val_acc), m2, g2) \<Rightarrow>
               (let train_losses1 = train_losses @ [train_loss];
                    val_losses1 = val_losses @ [val_loss]
                in case callback w m2 epoch train_losses1 val_losses1 val_acc of
                     Inl e \<Rightarrow> Inl e
                   | Inr (w1, m3, train_losses2, val_losses2) \<Rightarrow>
                       train_epochs fw train_loader val_loader callback
                         (m3, opt1, g2, w1, train_losses2, val_losses2) rest)))"

text \<open>
  \<open>train(model, train_loader, val_loader, optimizer, n_epochs, callback)\<close>. The Python
  function returns the last two components, the histories; the others are the model,
  optimizer, generator and world as the call leaves them.
\<close>

definition train ::
  "('v, 'g, 'x, 'y, 'o) framework \<Rightarrow> 'v model \<Rightarrow> (int \<Rightarrow> 'x batch list) \<Rightarrow> (int \<Rightarrow> 'x batch list)
     \<Rightarrow> 'o \<Rightarrow> int \<Rightarrow> ('v, 'w) observer \<Rightarrow> 'g \<Rightarrow> 'w
     \<Rightarrow> error + ('v model \<times> 'o \<times> 'g \<times> 'w \<times> pyfloat list \<times> pyfloat list)" where
  "train fw m train_loader val_loader optimizer n_epochs callback g w =
     train_epochs fw train_loader val_loader callback (m, optimizer, g, w, [], [])
       [0 .. n_epochs - 1]"

text \<open>
  An observer together with the list of the epochs it was called with, in call order.
\<close>

definition recording :: "('v, 'w) observer \<Rightarrow> ('v, 'w \<times> int list) observer" where
  "recording callback =
     (\<lambda>(w, calls) m epoch train_losses val_losses val_acc.
        case callback w m epoch train_losses val_losses val_acc of
          Inl e \<Rightarrow> Inl e
        | Inr (w1, m1, train_losses1, val_losses1) \<Rightarrow>
            Inr ((w1, calls @ [epoch]), m1, train_losses1, val_losses1))"

text \<open>The result of \<open>train\<close> under a recording observer, with the record dropped.\<close>

definition forget_calls ::
  "'v model \<times> 'o \<times> 'g \<times> ('w \<times> int list) \<times> pyfloat list \<times> pyfloat list
     \<Rightarrow> 'v model \<times> 'o \<times> 'g \<times> 'w \<times> pyfloat list \<times> pyfloat list" where
  "forget_calls = (\<lambda>(m1, opt1, g1, (w1, calls), tls, vls). (m1, opt1, g1, w1, tls, vls))"

text \<open>The conditions under which every call inside an epoch returns.\<close>

definition loader_ok :: "'x batch list \<Rightarrow> bool" where
  "loader_ok dataloader = (dataloader \<noteq> [] \<and> list_all (\<lambda>b. snd b \<noteq> []) dataloader)"

definition observer_returns :: "('v, 'w) observer \<Rightarrow> bool" where
  "observer_returns callback =
     (\<forall>w m epoch train_losses val_losses val_acc.
        train_losses \<noteq> [] \<and> val_losses \<noteq> []
        \<longrightarrow> (\<exists>r. callback w m epoch train_losses val_losses val_acc = Inr r))"

text \<open>An observer that leaves the two history lists as it was handed them.\<close>

definition keeps_histories :: "('v, 'w) observer \<Rightarrow> bool" where
  "keeps_histories callback =
     (\<forall>w m epoch train_losses val_losses val_acc w1 m1 train_losses1 val_losses1.
        callback w m epoch train_losses val_losses val_acc
          = Inr (w1, m1, train_losses1, val_losses1)
        \<longrightarrow> train_losses1 = train_losses \<and> val_losses1 = val_losses)"

text \<open>
  A function that only acts on the world, as an observer: the model and the lists come
  back as they were handed over.
\<close>

definition reading ::
  "('w \<Rightarrow> 'v model \<Rightarrow> int \<Rightarrow> pyfloat list \<Rightarrow> pyfloat list \<Rightarrow> pyfloat \<Rightarrow> error + 'w)
     \<Rightarrow> ('v, 'w) observer" where
  "reading f =
     (\<lambda>w m epoch train_losses val_losses val_acc.
        case f w m epoch train_losses val_losses val_acc of
          Inl e \<Rightarrow> Inl e
        | Inr w1 \<Rightarrow> Inr (w1, m, train_losses, val_losses))"

text \<open>
  An observer whose body is \<open>train_losses.clear(); val_losses.clear()\<close>.
\<close>

definition clearing_observer :: "('v, 'w) observer" where
  "clearing_observer =
     (\<lambda>w m epoch train_losses val_losses val_acc. Inr (w, m, [], []))"


section \<open>Observers and the persistence collaborator\<close>

text \<open>
  The world the two observers of the script act on: the files written by \<open>torch.save\<close>
  and the lines printed. A printed line is kept as the values it formats.
\<close>

datatype line = Stats int pyfloat pyfloat pyfloat | Best int pyfloat

record 'v world =
  files :: "string \<rightharpoonup> 'v state_dict"
  stdout :: "line list"

text \<open>\<open>print_loss_every_n_epochs\<close>; \<open>epoch % n\<close> raises on \<open>n = 0\<close>.\<close>

definition print_loss_every_n_epochs ::
  "'v world \<Rightarrow> 'v model \<Rightarrow> int \<Rightarrow> pyfloat list \<Rightarrow> pyfloat list \<Rightarrow> pyfloat \<Rightarrow> int
     \<Rightarrow> error + 'v world" where
  "print_loss_every_n_epochs w m epoch train_losses val_losses val_acc n =
     (if n = 0 then Inl ZeroDivisionError
      else if epoch mod n = 0 then
        (case py_last train_losses of
           Inl e \<Rightarrow> Inl e
         | Inr t \<Rightarrow>
             (case py_last val_losses of
                Inl e \<Rightarrow> Inl e
              | Inr v \<Rightarrow> Inr (w\<lparr>stdout := stdout w @ [Stats epoch t v val_acc]\<rparr>)))
      else Inr w)"

text \<open>
  Modelled from the spec: the persistence collaborator, a store from destination to
  snapshot. \<open>torch.save\<close> overwrites the destination; \<open>torch.load\<close> fails when the
  destination is absent; \<open>load_state_dict\<close> overwrites the parameters of the model and
  fails when the names and shapes of the snapshot are not those of the model's layers.
\<close>

definition torch_save :: "'v state_dict \<Rightarrow> string \<Rightarrow> 'v world \<Rightarrow> 'v world" where
  "torch_save sd filename w = w\<lparr>files := (files w)(filename \<mapsto> sd)\<rparr>"

definition torch_load :: "'v world \<Rightarrow> string \<Rightarrow> error + 'v state_dict" where
  "torch_load w path = (case files w path of None \<Rightarrow> Inl FileNotFoundError | Some sd \<Rightarrow> Inr sd)"

definition sig_of :: "'v state_dict \<Rightarrow> (key \<times> int list) list" where
  "sig_of sd = map (\<lambda>(k, shape, d). (k, shape)) sd"

definition load_state_dict :: "'v model \<Rightarrow> 'v state_dict \<Rightarrow> error + 'v model" where
  "load_state_dict m sd =
     (if sig_of sd = param_sig [] (modules m) then Inr (m\<lparr>params := sd\<rparr>)
      else Inl RuntimeError)"

text \<open>
  \<open>save_model_if_improved\<close>. \<open>val_losses[-1]\<close> is evaluated first and raises on an empty
  history. The line printed and the file written belong to the same branch.
\<close>

definition save_model_if_improved ::
  "'v world \<Rightarrow> 'v model \<Rightarrow> int \<Rightarrow> pyfloat list \<Rightarrow> pyfloat list \<Rightarrow> pyfloat \<Rightarrow> string
     \<Rightarrow> error + 'v world" where
  "save_model_if_improved w m epoch train_losses val_losses val_acc filename =
     (case py_last val_losses of
        Inl e \<Rightarrow> Inl e
      | Inr latest \<Rightarrow>
          (case py_min val_losses of
             Inl e \<Rightarrow> Inl e
           | Inr best \<Rightarrow>
               if fl_eq latest best
               then Inr (torch_save (state_dict m) filename
                           (w\<lparr>stdout := stdout w @ [Best epoch latest]\<rparr>))
               else Inr w))"

text \<open>\<open>load_model(model, model_file_path)\<close>; \<open>torch.load\<close> runs first.\<close>

definition load_model :: "'v world \<Rightarrow> 'v model \<Rightarrow> string \<Rightarrow> error + 'v model" where
  "load_model w m model_file_path =
     (case torch_load w model_file_path of
        Inl e \<Rightarrow> Inl e
      | Inr sd \<Rightarrow> load_state_dict m sd)"

text \<open>
  \<open>partial(save_model_if_improved, filename=...)\<close>, the observer passed to \<open>train\<close>.
  \<open>save_model_if_improved\<close> assigns to none of its arguments.
\<close>

definition checkpoint_observer :: "string \<Rightarrow> ('v, 'v world) observer" where
  "checkpoint_observer filename =
     reading (\<lambda>w m epoch train_losses val_losses val_acc.
        save_model_if_improved w m epoch train_losses val_losses val_acc filename)"

text \<open>\<open>partial(print_loss_every_n_epochs, n=...)\<close>, the other observer passed to \<open>train\<close>.\<close>

definition printing_observer :: "int \<Rightarrow> ('v, 'v world) observer" where
  "printing_observer n =
     reading (\<lambda>w m epoch train_losses val_losses val_acc.
        print_loss_every_n_epochs w m epoch train_losses val_losses val_acc n)"

text \<open>A model whose parameters are those its layers call for.\<close>

definition wf_model :: "'v model \<Rightarrow> bool" where
  "wf_model m = (sig_of (params m) = param_sig [] (modules m))"


section \<open>A small collaborator\<close>

text \<open>
  An instance of the numerical collaborator on which the definitions can be evaluated. A
  batch of images is a list of integers and the prediction for an image is the image
  itself; the loss of a batch is the number of wrong predictions; the value of a tensor is
  an integer, which an optimizer step increments; the generator and the optimizer count
  their uses.
\<close>

definition wrong :: "int list \<Rightarrow> int list \<Rightarrow> nat" where
  "wrong preds labels = length (filter (\<lambda>(a, l). a \<noteq> l) (zip preds labels))"

definition toy :: "(int, nat, int list, int list, nat) framework" where
  "toy =
     \<lparr>init_data = (\<lambda>g k shape. (0, Suc g)),
      forward_eval = (\<lambda>mods sd x. x),
      forward_train = (\<lambda>mods sd g x. (x, Suc g)),
      cross_entropy = (\<lambda>preds labels. Fin (real (wrong preds labels))),
      argmax = (\<lambda>preds. preds),
      autograd = (\<lambda>mods sd mode g x labels. map (\<lambda>(k, shape, d). (k, shape, 1)) sd),
      grad_add = (\<lambda>a b. map (\<lambda>((k, shape, d), (k1, shape1, d1)). (k, shape, d + d1)) (zip a b)),
      opt_step = (\<lambda>opt sd gr.
         (case gr of
            None \<Rightarrow> sd
          | Some ds \<Rightarrow> map (\<lambda>((k, shape, d), (k1, shape1, d1)). (k, shape, d + d1)) (zip sd ds),
          Suc opt))\<rparr>"

text \<open>The same collaborator when the loss has diverged: every loss is not-a-number.\<close>

definition toy_nan :: "(int, nat, int list, int list, nat) framework" where
  "toy_nan = toy\<lparr>cross_entropy := (\<lambda>preds labels. NaN)\<rparr>"

definition tiny :: "int model" where
  "tiny = \<lparr>modules = Sequential [Flatten, Linear 784 10],
           params = [(([1], ''weight''), [10, 784], 0), (([1], ''bias''), [10], 0)],
           grads = None, training = True\<rparr>"

definition no_files :: "int world" where
  "no_files = \<lparr>files = Map.empty, stdout = []\<rparr>"


section \<open>Facts about the Python values\<close>

lemma foldl_fl_add_Fin: "foldl fl_add (Fin a) (map Fin rs) = Fin (a + sum_list rs)"
  by (induction rs arbitrary: a) (simp_all add: add.assoc)

lemma py_sum_Fin: "py_sum (map Fin rs) = Fin (sum_list rs)"
  by (simp add: py_sum_def foldl_fl_add_Fin)

lemma foldl_min_Fin:
  "foldl (\<lambda>cur it. if fl_lt it cur then it else cur) (Fin x) (map Fin rs)
     = Fin (Min (set (x # rs)))"
proof (induction rs arbitrary: x)
  case Nil
  then show ?case by simp
next
  case (Cons y ys)
  have assoc: "Min (set (min x y # ys)) = Min (set (x # y # ys))"
    by (cases ys) (simp_all add: min.assoc)
  have pick: "(if y < x then Fin y else Fin x) = Fin (min x y)"
    by (simp add: min_def not_less)
  have "foldl (\<lambda>cur it. if fl_lt it cur then it else cur) (Fin x) (map Fin (y # ys))
          = foldl (\<lambda>cur it. if fl_lt it cur then it else cur) (Fin (min x y)) (map Fin ys)"
    using pick by simp
  also have "\<dots> = Fin (Min (set (min x y # ys)))"
    by (rule Cons.IH)
  finally show ?case
    by (simp only: assoc)
qed

lemma py_min_Fin: "rs \<noteq> [] \<Longrightarrow> py_min (map Fin rs) = Inr (Fin (Min (set rs)))"
  by (cases rs) (simp_all add: py_min_def foldl_min_Fin del: set_simps)

lemma py_last_map: "rs \<noteq> [] \<Longrightarrow> py_last (map f rs) = Inr (f (last rs))"
  by (cases rs) (simp_all add: py_last_def last_map)

lemma py_truediv_pos: "0 < n \<Longrightarrow> \<exists>y. py_truediv x n = Inr y"
  by (simp add: py_truediv_def)

lemma py_truediv_Fin: "0 < n \<Longrightarrow> py_truediv (Fin r) n = Inr (Fin (r / real n))"
  by (simp add: py_truediv_def)


section \<open>Evaluating the small collaborator\<close>

lemma toy_simps:
  "init_data toy g k shape = (0, Suc g)"
  "forward_eval toy mods sd x = x"
  "forward_train toy mods sd g x = (x, Suc g)"
  "cross_entropy toy preds labels = Fin (real (wrong preds labels))"
  "argmax toy preds = preds"
  "autograd toy mods sd mode g x labels = map (\<lambda>(k, shape, d). (k, shape, 1)) sd"
  "opt_step toy opt sd None = (sd, Suc opt)"
  "opt_step toy opt sd (Some ds)
     = (map (\<lambda>((k, shape, d), (k1, shape1, d1)). (k, shape, d + d1)) (zip sd ds), Suc opt)"
  by (simp_all add: toy_def)

lemma toy_nan_simps:
  "init_data toy_nan g k shape = (0, Suc g)"
  "forward_eval toy_nan mods sd x = x"
  "forward_train toy_nan mods sd g x = (x, Suc g)"
  "cross_entropy toy_nan preds labels = NaN"
  "argmax toy_nan preds = preds"
  "autograd toy_nan mods sd mode g x labels = map (\<lambda>(k, shape, d). (k, shape, 1)) sd"
  "opt_step toy_nan opt sd None = (sd, Suc opt)"
  "opt_step toy_nan opt sd (Some ds)
     = (map (\<lambda>((k, shape, d), (k1, shape1, d1)). (k, shape, d + d1)) (zip sd ds), Suc opt)"
  by (simp_all add: toy_nan_def toy_def)


section \<open>The model factories\<close>

text \<open>
  C1. For every non-empty list of hidden widths, and every drop probability (in
  particular every one in [0,1)), both factories return a model. The first affine
  transform met by a forward pass takes width 784. The last layer of the forward pass is
  the affine transform from the last hidden width to 10, so nothing follows it.
\<close>

theorem factory_widths:
  "hidden_dims \<noteq> [] \<Longrightarrow>
     (\<exists>m g1. create_model fw g hidden_dims = Inr (m, g1)
        \<and> List.find is_Linear (leaves (modules m)) = Some (Linear 784 (hd hidden_dims))
        \<and> last (leaves (modules m)) = Linear (last hidden_dims) 10)
   \<and> (\<exists>m g1. create_model_with_dropout fw g hidden_dims p = Inr (m, g1)
        \<and> List.find is_Linear (leaves (modules m)) = Some (Linear 784 (hd hidden_dims))
        \<and> last (leaves (modules m)) = Linear (last hidden_dims) 10)"
  by (cases hidden_dims)
     (auto simp: create_model_def create_model_with_dropout_def new_module_def
           split: prod.splits)

theorem factory_widths_witness:
  "[64, 32] \<noteq> ([] :: int list)
   \<and> (\<exists>m g1. create_model toy 0 [64, 32] = Inr (m, g1)
        \<and> List.find is_Linear (leaves (modules m)) = Some (Linear 784 64)
        \<and> last (leaves (modules m)) = Linear 32 10)
   \<and> (\<exists>m g1. create_model_with_dropout toy 0 [64, 32] (Fin (4 / 5)) = Inr (m, g1)
        \<and> List.find is_Linear (leaves (modules m)) = Some (Linear 784 64)
        \<and> last (leaves (modules m)) = Linear 32 10)"
  using factory_widths [of "[64, 32]" toy 0 "Fin (4 / 5)"] by simp


section \<open>The checkpoint policy\<close>

text \<open>
  C2. On a history of numbers, the observer persists the snapshot exactly when the last
  validation loss is the minimum of the history, a tie included. Persisting prints one
  line and puts the model's parameters at the destination, whatever was there before;
  otherwise the world is left as it was.
\<close>

theorem checkpoint_policy:
  "rs \<noteq> [] \<Longrightarrow>
   save_model_if_improved w m epoch train_losses (map Fin rs) val_acc filename =
     Inr (if last rs = Min (set rs)
          then w\<lparr>stdout := stdout w @ [Best epoch (Fin (last rs))],
                 files := (files w)(filename \<mapsto> state_dict m)\<rparr>
          else w)"
  by (simp add: save_model_if_improved_def py_min_Fin py_last_map torch_save_def)

text \<open>
  The history 0.9, 0.7, 0.8, 0.7: a snapshot at epochs 0, 1 and 3, none at epoch 2. At
  epoch 1 the destination already holds a snapshot, which is replaced.
\<close>

theorem checkpoint_policy_witness:
  "save_model_if_improved no_files tiny 0 [] (map Fin [9 / 10]) (Fin 0) ''early_stopping.pth''
     = Inr (no_files\<lparr>stdout := [Best 0 (Fin (9 / 10))],
                     files := [''early_stopping.pth'' \<mapsto> params tiny]\<rparr>)
   \<and> save_model_if_improved (no_files\<lparr>files := [''early_stopping.pth'' \<mapsto> []]\<rparr>) tiny 1 []
         (map Fin [9 / 10, 7 / 10]) (Fin 0) ''early_stopping.pth''
     = Inr (no_files\<lparr>stdout := [Best 1 (Fin (7 / 10))],
                     files := [''early_stopping.pth'' \<mapsto> params tiny]\<rparr>)
   \<and> save_model_if_improved no_files tiny 2 [] (map Fin [9 / 10, 7 / 10, 8 / 10]) (Fin 0)
         ''early_stopping.pth''
     = Inr no_files
   \<and> save_model_if_improved no_files tiny 3 [] (map Fin [9 / 10, 7 / 10, 8 / 10, 7 / 10])
         (Fin 0) ''early_stopping.pth''
     = Inr (no_files\<lparr>stdout := [Best 3 (Fin (7 / 10))],
                     files := [''early_stopping.pth'' \<mapsto> params tiny]\<rparr>)"
  using checkpoint_policy [of "[9 / 10]" no_files tiny 0 "[]" "Fin 0" "''early_stopping.pth''"]
    checkpoint_policy [of "[9 / 10, 7 / 10]"
      "no_files\<lparr>files := [''early_stopping.pth'' \<mapsto> []]\<rparr>" tiny 1 "[]" "Fin 0"
      "''early_stopping.pth''"]
    checkpoint_policy [of "[9 / 10, 7 / 10, 8 / 10]" no_files tiny 2 "[]" "Fin 0"
      "''early_stopping.pth''"]
    checkpoint_policy [of "[9 / 10, 7 / 10, 8 / 10, 7 / 10]" no_files tiny 3 "[]" "Fin 0"
      "''early_stopping.pth''"]
  by (simp add: no_files_def state_dict_def)


section \<open>The epoch runner\<close>

lemma train_batches_step:
  "train_batches fw s losses (b # rest) =
     train_batches fw (snd (batch_pass fw s b)) (losses @ [fst (batch_pass fw s b)]) rest"
  by (cases s; cases b)
     (simp add: batch_pass_def zero_grad_def backward_def step_def call_model_def Let_def
           split: prod.splits)

lemma train_batches_epoch_pass:
  "train_batches fw s losses dl =
     (snd (epoch_pass fw s dl), losses @ fst (epoch_pass fw s dl))"
proof (induction dl arbitrary: s losses)
  case Nil
  then show ?case by simp
next
  case (Cons b rest)
  show ?case
    unfolding train_batches_step Cons.IH
    by (simp add: split_beta Let_def)
qed

lemma length_epoch_pass: "length (fst (epoch_pass fw s dl)) = length dl"
  by (induction dl arbitrary: s) (simp_all add: split_beta Let_def)

lemma train_one_epoch_eq:
  "train_one_epoch fw m dl opt g =
     (case py_truediv (py_sum (fst (epoch_pass fw (m, opt, g) dl))) (length dl) of
        Inl e \<Rightarrow> Inl e
      | Inr avg_loss \<Rightarrow> Inr (avg_loss, snd (epoch_pass fw (m, opt, g) dl)))"
  by (simp add: train_one_epoch_def train_batches_epoch_pass length_epoch_pass)

lemma train_one_epoch_nonempty:
  "dl \<noteq> [] \<Longrightarrow>
   train_one_epoch fw m dl opt g =
     Inr (case py_sum (fst (epoch_pass fw (m, opt, g) dl)) of
            NaN \<Rightarrow> NaN | Fin r \<Rightarrow> Fin (r / real (length dl)),
          snd (epoch_pass fw (m, opt, g) dl))"
  by (simp add: train_one_epoch_eq py_truediv_def)

lemma train_one_epoch_returns:
  "dl \<noteq> [] \<Longrightarrow> \<exists>r. train_one_epoch fw m dl opt g = Inr r"
  by (rule exI, erule train_one_epoch_nonempty)

lemma batch_pass_forgets_grads:
  "batch_pass fw (m\<lparr>grads := gr\<rparr>, opt, g) b = batch_pass fw (m, opt, g) b"
  by (cases b) (simp add: batch_pass_def call_model_def Let_def split: prod.splits)

lemma epoch_pass_forgets_grads:
  "dl \<noteq> [] \<Longrightarrow> epoch_pass fw (m\<lparr>grads := gr\<rparr>, opt, g) dl = epoch_pass fw (m, opt, g) dl"
  by (cases dl) (simp_all add: batch_pass_forgets_grads)

lemma epoch_pass_foldl:
  "snd (epoch_pass fw s dl) = foldl (\<lambda>s b. snd (batch_pass fw s b)) s dl"
  by (induction dl arbitrary: s) (simp_all add: split_beta Let_def)

lemma epoch_pass_nth:
  "i < length dl \<Longrightarrow>
   fst (epoch_pass fw s dl) ! i
     = fst (batch_pass fw (foldl (\<lambda>s b. snd (batch_pass fw s b)) s (take i dl)) (dl ! i))"
proof (induction dl arbitrary: s i)
  case Nil
  then show ?case by simp
next
  case (Cons b bs)
  show ?case
  proof (cases i)
    case 0
    then show ?thesis by (simp add: split_beta Let_def)
  next
    case (Suc j)
    with Cons.prems have "j < length bs" by simp
    from Cons.IH [OF this] show ?thesis
      by (simp add: Suc split_beta Let_def)
  qed
qed

text \<open>
  C4. On a non-empty sequence the epoch runner returns, and what it does is one pass in
  the sense of \<open>epoch_pass\<close>: the state it leaves is the left fold of \<open>batch_pass\<close>
  over the sequence, and the loss recorded at position \<open>i\<close> is the loss of batch \<open>i\<close>
  at the state reached after the batches before it. So the batches are taken in sequence
  order, each once, each with one optimizer step on the gradient of that batch alone
  (gradients left on the model before the call, or by an earlier batch, never enter a
  step). The value returned is the sum of the per-batch losses divided by their number;
  when the losses are numbers that is their arithmetic mean.
\<close>

theorem epoch_runner_pass:
  assumes "dl \<noteq> []"
  shows "\<exists>avg_loss.
           train_one_epoch fw m dl opt g = Inr (avg_loss, snd (epoch_pass fw (m, opt, g) dl))
         \<and> length (fst (epoch_pass fw (m, opt, g) dl)) = length dl
         \<and> py_truediv (py_sum (fst (epoch_pass fw (m, opt, g) dl))) (length dl) = Inr avg_loss
         \<and> (\<forall>rs. fst (epoch_pass fw (m, opt, g) dl) = map Fin rs
               \<longrightarrow> avg_loss = Fin (sum_list rs / real (length dl)))
         \<and> train_one_epoch fw (m\<lparr>grads := gr\<rparr>) dl opt g = train_one_epoch fw m dl opt g
         \<and> snd (epoch_pass fw (m, opt, g) dl)
             = foldl (\<lambda>s b. snd (batch_pass fw s b)) (m, opt, g) dl
         \<and> (\<forall>i<length dl.
               fst (epoch_pass fw (m, opt, g) dl) ! i
                 = fst (batch_pass fw
                          (foldl (\<lambda>s b. snd (batch_pass fw s b)) (m, opt, g) (take i dl))
                          (dl ! i)))"
proof -
  let ?ls = "fst (epoch_pass fw (m, opt, g) dl)"
  from assms have pos: "0 < length dl" by simp
  then obtain a where a: "py_truediv (py_sum ?ls) (length dl) = Inr a"
    using py_truediv_pos by blast
  have 1: "train_one_epoch fw m dl opt g = Inr (a, snd (epoch_pass fw (m, opt, g) dl))"
    by (simp add: train_one_epoch_eq a)
  have 2: "a = Fin (sum_list rs / real (length dl))" if "?ls = map Fin rs" for rs
    using a pos that by (simp add: py_sum_Fin py_truediv_Fin)
  have 3: "train_one_epoch fw (m\<lparr>grads := gr\<rparr>) dl opt g = train_one_epoch fw m dl opt g"
    unfolding train_one_epoch_eq epoch_pass_forgets_grads[OF assms] by (rule refl)
  show ?thesis
  proof (intro exI[of _ a] conjI allI impI)
    show "train_one_epoch fw m dl opt g = Inr (a, snd (epoch_pass fw (m, opt, g) dl))"
      by (rule 1)
    show "length ?ls = length dl" by (rule length_epoch_pass)
    show "py_truediv (py_sum ?ls) (length dl) = Inr a" by (rule a)
    show "a = Fin (sum_list rs / real (length dl))" if "?ls = map Fin rs" for rs
      using that by (rule 2)
    show "train_one_epoch fw (m\<lparr>grads := gr\<rparr>) dl opt g = train_one_epoch fw m dl opt g"
      by (rule 3)
    show "snd (epoch_pass fw (m, opt, g) dl)
            = foldl (\<lambda>s b. snd (batch_pass fw s b)) (m, opt, g) dl"
      by (rule epoch_pass_foldl)
    show "?ls ! i
            = fst (batch_pass fw
                     (foldl (\<lambda>s b. snd (batch_pass fw s b)) (m, opt, g) (take i dl)) (dl ! i))"
      if "i < length dl" for i
      using that by (rule epoch_pass_nth)
  qed
qed


lemma epoch_pass_toy_example:
  "epoch_pass toy (tiny, 7, 0) [([1, 2], [1, 3]), ([4], [5])]
     = ([Fin 1, Fin 1],
        tiny\<lparr>grads := Some [(([1], ''weight''), [10, 784], 1), (([1], ''bias''), [10], 1)],
             params := [(([1], ''weight''), [10, 784], 2), (([1], ''bias''), [10], 2)]\<rparr>,
        9, 2)"
  by (simp add: batch_pass_def call_model_def toy_simps tiny_def wrong_def Let_def)

theorem epoch_runner_pass_witness:
  "[([1, 2], [1, 3]), ([4], [5])] \<noteq> ([] :: int list batch list)
   \<and> train_one_epoch toy tiny [([1, 2], [1, 3]), ([4], [5])] 7 0
       = Inr (Fin 1,
              tiny\<lparr>grads := Some [(([1], ''weight''), [10, 784], 1), (([1], ''bias''), [10], 1)],
                   params := [(([1], ''weight''), [10, 784], 2), (([1], ''bias''), [10], 2)]\<rparr>,
              9, 2)
   \<and> fst (epoch_pass toy (tiny, 7, 0) [([1, 2], [1, 3]), ([4], [5])]) = map Fin [1, 1]
   \<and> train_one_epoch toy (tiny\<lparr>grads := Some []\<rparr>) [([1, 2], [1, 3]), ([4], [5])] 7 0
       = train_one_epoch toy tiny [([1, 2], [1, 3]), ([4], [5])] 7 0"
proof -
  let ?dl = "[([1, 2], [1, 3]), ([4], [5])] :: int list batch list"
  have ne: "?dl \<noteq> []" by simp
  have ls: "fst (epoch_pass toy (tiny, 7, 0) ?dl) = map Fin [1, 1]"
    by (simp only: epoch_pass_toy_example fst_conv list.map)
  from epoch_runner_pass [OF ne, of toy tiny 7 0 "Some []"] obtain a where
    r: "train_one_epoch toy tiny ?dl 7 0 = Inr (a, snd (epoch_pass toy (tiny, 7, 0) ?dl))" and
    mean: "\<forall>rs. fst (epoch_pass toy (tiny, 7, 0) ?dl) = map Fin rs
             \<longrightarrow> a = Fin (sum_list rs / real (length ?dl))" and
    forget: "train_one_epoch toy (tiny\<lparr>grads := Some []\<rparr>) ?dl 7 0
               = train_one_epoch toy tiny ?dl 7 0"
    by (elim exE conjE)
  from mean [rule_format, OF ls] have a: "a = Fin 1" by simp
  show ?thesis
    using ne r ls forget unfolding a by (simp only: epoch_pass_toy_example snd_conv simp_thms)
qed


section \<open>The evaluator\<close>

lemma call_model_eval:
  "\<not> training m \<Longrightarrow> call_model fw m g x = (forward_eval fw (modules m) (params m) x, g)"
  by (simp add: call_model_def)

lemma validate_batches_eval:
  "\<not> training m \<Longrightarrow>
   validate_batches fw m g (losses, accuracies) dl =
     (if list_all (\<lambda>b. snd b \<noteq> []) dl
      then Inr ((losses @ map (eval_loss fw m) dl,
                 accuracies @ map (\<lambda>b. Fin (eval_accuracy fw m b)) dl), g)
      else Inl ZeroDivisionError)"
proof (induction dl arbitrary: losses accuracies)
  case Nil
  then show ?case by simp
next
  case (Cons b rest)
  obtain x labels where b: "b = (x, labels)" by (cases b)
  show ?case
  proof (cases "labels = []")
    case True
    then show ?thesis
      by (simp add: b call_model_eval[OF Cons.prems] py_truediv_def)
  next
    case False
    then show ?thesis
      by (simp add: b call_model_eval[OF Cons.prems] py_truediv_def Cons.IH[OF Cons.prems]
            eval_loss_def eval_accuracy_def eval_correct_def)
  qed
qed

lemma eval_loss_model_eval: "eval_loss fw (model_eval m) = eval_loss fw m"
  by (rule ext) (simp add: eval_loss_def model_eval_def)

lemma eval_accuracy_model_eval: "eval_accuracy fw (model_eval m) = eval_accuracy fw m"
  by (rule ext) (simp add: eval_accuracy_def eval_correct_def model_eval_def)

lemma validate_eq:
  "validate fw m g dl =
     (if loader_ok dl
      then Inr ((case py_sum (map (eval_loss fw m) dl) of
                   NaN \<Rightarrow> NaN | Fin r \<Rightarrow> Fin (r / real (length dl)),
                 Fin (sum_list (map (eval_accuracy fw m) dl) / real (length dl))),
                m\<lparr>training := True\<rparr>, g)
      else Inl ZeroDivisionError)"
proof -
  have ne: "\<not> training (model_eval m)" by (simp add: model_eval_def)
  have acc: "py_sum (map (\<lambda>b. Fin (eval_accuracy fw m b)) dl)
               = Fin (sum_list (map (eval_accuracy fw m) dl))"
    using py_sum_Fin[of "map (eval_accuracy fw m) dl"] by (simp add: comp_def)
  have vb: "validate_batches fw (model_eval m) g ([], []) dl =
     (if list_all (\<lambda>b. snd b \<noteq> []) dl
      then Inr ((map (eval_loss fw m) dl, map (\<lambda>b. Fin (eval_accuracy fw m b)) dl), g)
      else Inl ZeroDivisionError)"
    by (simp add: validate_batches_eval[OF ne] eval_loss_model_eval eval_accuracy_model_eval)
  have mt: "model_train (model_eval m) = m\<lparr>training := True\<rparr>"
    by (simp add: model_eval_def model_train_def)
  show ?thesis
    unfolding validate_def Let_def vb mt
    by (cases "dl = []")
       (simp_all add: loader_ok_def acc py_truediv_def cong: pyfloat.case_cong)
qed

lemma validate_returns:
  "loader_ok dl \<Longrightarrow> \<exists>l a. validate fw m g dl = Inr ((l, a), m\<lparr>training := True\<rparr>, g)"
  by (simp add: validate_eq)

lemma eval_loss_cong:
  "modules m1 = modules m \<Longrightarrow> params m1 = params m \<Longrightarrow> eval_loss fw m1 = eval_loss fw m"
  by (rule ext) (simp add: eval_loss_def)

lemma eval_accuracy_cong:
  "modules m1 = modules m \<Longrightarrow> params m1 = params m
   \<Longrightarrow> eval_accuracy fw m1 = eval_accuracy fw m"
  by (rule ext) (simp add: eval_accuracy_def eval_correct_def)

lemma validate_result_cong:
  assumes "modules m1 = modules m" and "params m1 = params m"
  shows "map_sum id fst (validate fw m1 g1 dl) = map_sum id fst (validate fw m g dl)"
  unfolding validate_eq eval_loss_cong[OF assms] eval_accuracy_cong[OF assms]
  by simp


lemma validate_toy_two_batches:
  "validate toy tiny 0 [([1], [1]), ([0, 0, 0], [1, 1, 1])]
     = Inr ((Fin (3 / 2), Fin (1 / 2)), tiny, 0)"
  by (simp add: validate_eq loader_ok_def eval_loss_def eval_accuracy_def eval_correct_def
        toy_simps wrong_def py_sum_def tiny_def)

lemma validate_toy_one_batch:
  "validate toy (tiny\<lparr>training := b\<rparr>) 0 [([1], [1])]
     = Inr ((Fin 0, Fin 1), tiny\<lparr>training := True\<rparr>, 0)"
  by (simp add: validate_eq loader_ok_def eval_loss_def eval_accuracy_def eval_correct_def
        toy_simps wrong_def py_sum_def tiny_def)

lemma tiny_training: "tiny\<lparr>training := True\<rparr> = tiny"
  by (simp add: tiny_def)

text \<open>
  C5, as the code has it. The evaluator clears the training-mode flag, evaluates, and sets
  the flag: a model leaves the evaluator in training mode whatever the flag was on entry,
  so the flag is the one of entry exactly when it was set on entry. The entry value is
  not remembered. The evaluation itself does not depend on the entry value.
\<close>

theorem evaluator_leaves_training_mode:
  "(validate fw m g dl = Inr (r, m1, g1)
      \<longrightarrow> training m1 \<and> (training m \<longrightarrow> training m1 = training m))
   \<and> (loader_ok dl \<longrightarrow> (\<exists>r. validate fw m g dl = Inr (r, m\<lparr>training := True\<rparr>, g)))
   \<and> map_sum id fst (validate fw (m\<lparr>training := b\<rparr>) g dl)
        = map_sum id fst (validate fw m g dl)"
proof (intro conjI impI)
  assume "validate fw m g dl = Inr (r, m1, g1)"
  then have m1: "m1 = m\<lparr>training := True\<rparr>"
    by (simp add: validate_eq split: if_splits)
  show "training m1" by (simp add: m1)
  show "training m1 = training m" if "training m" using that by (simp add: m1)
next
  assume "loader_ok dl"
  then show "\<exists>r. validate fw m g dl = Inr (r, m\<lparr>training := True\<rparr>, g)"
    by (simp add: validate_eq)
next
  show "map_sum id fst (validate fw (m\<lparr>training := b\<rparr>) g dl)
          = map_sum id fst (validate fw m g dl)"
    by (rule validate_result_cong) simp_all
qed

theorem evaluator_leaves_training_mode_witness:
  "validate toy tiny 0 [([1], [1])] = Inr ((Fin 0, Fin 1), tiny, 0)
   \<and> training tiny
   \<and> loader_ok [([1 :: int], [1 :: int])]
   \<and> map_sum id fst (validate toy (tiny\<lparr>training := False\<rparr>) 0 [([1], [1])])
        = map_sum id fst (validate toy tiny 0 [([1], [1])])"
proof -
  have v: "validate toy tiny 0 [([1], [1])] = Inr ((Fin 0, Fin 1), tiny, 0)"
    using validate_toy_one_batch [of True] by (simp only: tiny_training)
  from evaluator_leaves_training_mode
         [of toy tiny 0 "[([1], [1])]" "(Fin 0, Fin 1)" tiny 0 False]
  have "training tiny"
    and "map_sum id fst (validate toy (tiny\<lparr>training := False\<rparr>) 0 [([1], [1])])
           = map_sum id fst (validate toy tiny 0 [([1], [1])])"
    using v by simp_all
  then show ?thesis
    using v by (simp add: loader_ok_def)
qed

text \<open>
  The claim as stated fails for a model that enters in evaluation mode: it leaves in
  training mode.
\<close>

theorem evaluator_flag_not_restored:
  "validate toy (tiny\<lparr>training := False\<rparr>) 0 [([1], [1])]
     = Inr ((Fin 0, Fin 1), tiny\<lparr>training := True\<rparr>, 0)
   \<and> training (tiny\<lparr>training := True\<rparr>) \<noteq> training (tiny\<lparr>training := False\<rparr>)"
  using validate_toy_one_batch [of False] by simp

text \<open>
  C6. On a non-empty sequence of non-empty batches the evaluator returns. The accuracy
  returned is the sum over the batches of (correct predictions / size of the batch),
  divided by the number of batches; the loss returned is the sum of the per-batch losses
  divided by the number of batches, their arithmetic mean when they are numbers. A batch
  counts once whatever its size. The model returned has the layers, parameters and
  gradients of the model given.
\<close>

theorem evaluator_batch_mean:
  assumes "loader_ok dl"
  shows "\<exists>avg_loss m1 g1.
           validate fw m g dl
             = Inr ((avg_loss,
                     Fin (sum_list (map (eval_accuracy fw m) dl) / real (length dl))), m1, g1)
         \<and> py_truediv (py_sum (map (eval_loss fw m) dl)) (length dl) = Inr avg_loss
         \<and> (\<forall>rs. map (eval_loss fw m) dl = map Fin rs
               \<longrightarrow> avg_loss = Fin (sum_list rs / real (length dl)))
         \<and> modules m1 = modules m \<and> params m1 = params m \<and> grads m1 = grads m
         \<and> state_dict m1 = state_dict m"
proof -
  let ?a = "case py_sum (map (eval_loss fw m) dl) of
              NaN \<Rightarrow> NaN | Fin r \<Rightarrow> Fin (r / real (length dl))"
  from assms have pos: "0 < length dl" by (simp add: loader_ok_def)
  have v: "validate fw m g dl
             = Inr ((?a, Fin (sum_list (map (eval_accuracy fw m) dl) / real (length dl))),
                    m\<lparr>training := True\<rparr>, g)"
    using assms by (simp add: validate_eq)
  have d: "py_truediv (py_sum (map (eval_loss fw m) dl)) (length dl) = Inr ?a"
    using pos by (simp add: py_truediv_def)
  have mean: "?a = Fin (sum_list rs / real (length dl))"
    if "map (eval_loss fw m) dl = map Fin rs" for rs
    by (simp add: that py_sum_Fin)
  show ?thesis
  proof (intro exI[of _ ?a] exI[of _ "m\<lparr>training := True\<rparr>"] exI[of _ g] conjI allI impI)
    show "validate fw m g dl
            = Inr ((?a, Fin (sum_list (map (eval_accuracy fw m) dl) / real (length dl))),
                   m\<lparr>training := True\<rparr>, g)"
      by (rule v)
    show "py_truediv (py_sum (map (eval_loss fw m) dl)) (length dl) = Inr ?a" by (rule d)
    show "?a = Fin (sum_list rs / real (length dl))"
      if "map (eval_loss fw m) dl = map Fin rs" for rs
      using that by (rule mean)
  qed (simp_all add: state_dict_def)
qed

text \<open>
  One batch of one image, predicted right, and one batch of three images, all predicted
  wrong: the accuracy returned is 1/2, the mean of 1 and 0, where one correct prediction
  out of four images would be 1/4.
\<close>

theorem evaluator_batch_mean_witness:
  "loader_ok [([1 :: int], [1 :: int]), ([0, 0, 0], [1, 1, 1])]
   \<and> validate toy tiny 0 [([1], [1]), ([0, 0, 0], [1, 1, 1])]
       = Inr ((Fin (3 / 2), Fin (1 / 2)), tiny, 0)
   \<and> map (eval_accuracy toy tiny) [([1], [1]), ([0, 0, 0], [1, 1, 1])] = [1, 0]
   \<and> map (eval_loss toy tiny) [([1], [1]), ([0, 0, 0], [1, 1, 1])] = map Fin [0, 3]
   \<and> real (sum_list (map (eval_correct toy tiny) [([1], [1]), ([0, 0, 0], [1, 1, 1])]))
        / real (sum_list (map (\<lambda>b. length (snd b)) [([1 :: int], [1 :: int]), ([0, 0, 0], [1, 1, 1])]))
       = 1 / 4"
proof -
  let ?dl = "[([1], [1]), ([0, 0, 0], [1, 1, 1])] :: int list batch list"
  have ok: "loader_ok ?dl" by (simp add: loader_ok_def)
  have acc: "map (eval_accuracy toy tiny) ?dl = [1, 0]"
    by (simp add: eval_accuracy_def eval_correct_def toy_simps)
  have ls: "map (eval_loss toy tiny) ?dl = map Fin [0, 3]"
    by (simp add: eval_loss_def toy_simps wrong_def)
  have per_sample: "real (sum_list (map (eval_correct toy tiny) ?dl))
        / real (sum_list (map (\<lambda>b. length (snd b)) ?dl)) = 1 / 4"
    by (simp add: eval_correct_def toy_simps)
  from evaluator_batch_mean [OF ok, of toy tiny 0] obtain a m1 g1 where
    v: "validate toy tiny 0 ?dl
          = Inr ((a, Fin (sum_list (map (eval_accuracy toy tiny) ?dl) / real (length ?dl))), m1, g1)"
    and mean: "\<forall>rs. map (eval_loss toy tiny) ?dl = map Fin rs
                 \<longrightarrow> a = Fin (sum_list rs / real (length ?dl))"
    by (elim exE conjE)
  from mean [rule_format, OF ls] have a: "a = Fin (3 / 2)" by simp
  from v have "validate toy tiny 0 ?dl = Inr ((Fin (3 / 2), Fin (1 / 2)), tiny, 0)"
    unfolding a acc by (simp add: validate_toy_two_batches)
  with ok acc ls per_sample show ?thesis by (simp only: simp_thms)
qed

text \<open>
  C7. On the empty sequence both the epoch runner and the evaluator raise
  ZeroDivisionError, from the mean over zero batches. On a non-empty sequence the epoch
  runner returns; the evaluator returns exactly when every batch carries a label, since
  its only other division is the one of a batch's accuracy by the size of the batch. The
  division of the mean is defined on every non-empty sequence.
\<close>

theorem empty_sequence_division:
  "train_one_epoch fw m [] opt g = Inl ZeroDivisionError
   \<and> validate fw m g [] = Inl ZeroDivisionError
   \<and> (dl \<noteq> [] \<longrightarrow> (\<exists>r. train_one_epoch fw m dl opt g = Inr r))
   \<and> (dl \<noteq> [] \<longrightarrow>
        ((\<exists>r. validate fw m g dl = Inr r) \<longleftrightarrow> list_all (\<lambda>b. snd b \<noteq> []) dl))"
proof (intro conjI impI)
  show "train_one_epoch fw m [] opt g = Inl ZeroDivisionError"
    by (simp add: train_one_epoch_def py_truediv_def)
  show "validate fw m g [] = Inl ZeroDivisionError"
    by (simp add: validate_eq loader_ok_def)
  show "\<exists>r. train_one_epoch fw m dl opt g = Inr r" if "dl \<noteq> []"
    using that by (rule train_one_epoch_returns)
  show "(\<exists>r. validate fw m g dl = Inr r) \<longleftrightarrow> list_all (\<lambda>b. snd b \<noteq> []) dl" if "dl \<noteq> []"
    using that by (simp add: validate_eq loader_ok_def)
qed

theorem empty_sequence_division_witness:
  "train_one_epoch toy tiny [] 7 0 = Inl ZeroDivisionError
   \<and> validate toy tiny 0 [] = Inl ZeroDivisionError
   \<and> [([1], [1])] \<noteq> ([] :: int list batch list)
   \<and> (\<exists>r. train_one_epoch toy tiny [([1], [1])] 7 0 = Inr r)
   \<and> (\<exists>r. validate toy tiny 0 [([1], [1])] = Inr r)
   \<and> list_all (\<lambda>b. snd b \<noteq> []) [([1 :: int], [1 :: int])]"
  using empty_sequence_division [of toy tiny 7 0 "[([1], [1])]"] by simp

text \<open>
  C9. A second call of the evaluator, on the model and generator as the first call left
  them and on the same sequence, returns the same pair. More generally the pair depends
  only on the layers, the parameters and the sequence: not on the training-mode flag on
  entry, nor on the generator, nor on gradients.
\<close>

theorem evaluator_deterministic:
  "(validate fw m g dl = Inr (r, m1, g1)
      \<longrightarrow> (\<exists>m2 g2. validate fw m1 g1 dl = Inr (r, m2, g2)))
   \<and> (modules m' = modules m \<and> params m' = params m
      \<longrightarrow> map_sum id fst (validate fw m' g' dl) = map_sum id fst (validate fw m g dl))"
proof (intro conjI impI)
  assume a: "validate fw m g dl = Inr (r, m1, g1)"
  then have ok: "loader_ok dl" by (simp add: validate_eq split: if_splits)
  from a have m1: "m1 = m\<lparr>training := True\<rparr>"
    by (simp add: validate_eq split: if_splits)
  have "map_sum id fst (validate fw m1 g1 dl) = map_sum id fst (validate fw m g dl)"
    by (rule validate_result_cong) (simp_all add: m1)
  then have "map_sum id fst (validate fw m1 g1 dl) = Inr r"
    by (simp add: a)
  moreover obtain l c where "validate fw m1 g1 dl = Inr ((l, c), m1\<lparr>training := True\<rparr>, g1)"
    using validate_returns [OF ok, of fw m1 g1] by (elim exE)
  ultimately show "\<exists>m2 g2. validate fw m1 g1 dl = Inr (r, m2, g2)"
    by simp
next
  assume "modules m' = modules m \<and> params m' = params m"
  then show "map_sum id fst (validate fw m' g' dl) = map_sum id fst (validate fw m g dl)"
    by (simp add: validate_result_cong)
qed

theorem evaluator_deterministic_witness:
  "validate toy tiny 0 [([1], [1]), ([0, 0, 0], [1, 1, 1])]
     = Inr ((Fin (3 / 2), Fin (1 / 2)), tiny, 0)
   \<and> (\<exists>m2 g2. validate toy tiny 0 [([1], [1]), ([0, 0, 0], [1, 1, 1])]
                = Inr ((Fin (3 / 2), Fin (1 / 2)), m2, g2))
   \<and> map_sum id fst (validate toy (tiny\<lparr>training := False, grads := Some []\<rparr>) 5
                       [([1], [1]), ([0, 0, 0], [1, 1, 1])])
       = Inr (Fin (3 / 2), Fin (1 / 2))"
  using evaluator_deterministic
          [of toy tiny 0 "[([1], [1]), ([0, 0, 0], [1, 1, 1])]" "(Fin (3 / 2), Fin (1 / 2))"
              tiny 0 "tiny\<lparr>training := False, grads := Some []\<rparr>" 5]
  by (simp add: validate_toy_two_batches)


section \<open>The training orchestrator\<close>

lemma train_epochs_Cons_Inr:
  assumes "train_epochs fw trl vl cb (m, opt, g, w, tls, vls) (e # es) = Inr r"
  shows "\<exists>t m1 opt1 g1 v a m2 g2 w1 m3 tls2 vls2.
           train_one_epoch fw m (trl e) opt g = Inr (t, m1, opt1, g1)
         \<and> validate fw m1 g1 (vl e) = Inr ((v, a), m2, g2)
         \<and> cb w m2 e (tls @ [t]) (vls @ [v]) a = Inr (w1, m3, tls2, vls2)
         \<and> train_epochs fw trl vl cb (m3, opt1, g2, w1, tls2, vls2) es = Inr r"
proof (cases "train_one_epoch fw m (trl e) opt g")
  case (Inl err)
  with assms show ?thesis by simp
next
  case (Inr x)
  obtain t m1 opt1 g1 where x: "x = (t, m1, opt1, g1)" by (cases x)
  show ?thesis
  proof (cases "validate fw m1 g1 (vl e)")
    case (Inl err)
    with assms Inr x show ?thesis by simp
  next
    case vr: (Inr y)
    obtain v a m2 g2 where y: "y = ((v, a), m2, g2)" by (cases y) auto
    show ?thesis
    proof (cases "cb w m2 e (tls @ [t]) (vls @ [v]) a")
      case (Inl err)
      with assms Inr x vr y show ?thesis by (simp add: Let_def)
    next
      case cr: (Inr z)
      obtain w1 m3 tls2 vls2 where z: "z = (w1, m3, tls2, vls2)" by (cases z)
      with cr assms Inr x vr y show ?thesis by (simp add: Let_def)
    qed
  qed
qed

lemma recording_Inr:
  "recording cb (w, calls) m e tls vls a = Inr r
   \<Longrightarrow> \<exists>w1 m1 tls1 vls1. cb w m e tls vls a = Inr (w1, m1, tls1, vls1)
         \<and> r = ((w1, calls @ [e]), m1, tls1, vls1)"
  by (cases "cb w m e tls vls a") (auto simp: recording_def)

lemma train_epochs_recording_calls:
  "train_epochs fw trl vl (recording cb) (m, opt, g, (w, calls), tls, vls) es
     = Inr (m1, opt1, g1, (w1, calls1), tls1, vls1)
   \<Longrightarrow> calls1 = calls @ es"
proof (induction es arbitrary: m opt g w calls tls vls)
  case Nil
  then show ?case by simp
next
  case (Cons e es)
  from train_epochs_Cons_Inr [OF Cons.prems] obtain t m2 opt2 g2 v a m3 g3 ww m4 tls2 vls2 where
    "train_one_epoch fw m (trl e) opt g = Inr (t, m2, opt2, g2)" and
    "validate fw m2 g2 (vl e) = Inr ((v, a), m3, g3)" and
    cb: "recording cb (w, calls) m3 e (tls @ [t]) (vls @ [v]) a = Inr (ww, m4, tls2, vls2)" and
    step: "train_epochs fw trl vl (recording cb) (m4, opt2, g3, ww, tls2, vls2) es
       = Inr (m1, opt1, g1, (w1, calls1), tls1, vls1)"
    by (elim exE conjE)
  from recording_Inr [OF cb] obtain w2 where ww: "ww = (w2, calls @ [e])"
    by auto
  from Cons.IH [OF step [unfolded ww]] show ?case by simp
qed

lemma train_epochs_lengths:
  assumes "keeps_histories cb"
  shows "train_epochs fw trl vl cb (m, opt, g, w, tls, vls) es
           = Inr (m1, opt1, g1, w1, tls1, vls1)
         \<Longrightarrow> length tls1 = length tls + length es \<and> length vls1 = length vls + length es"
proof (induction es arbitrary: m opt g w tls vls)
  case Nil
  then show ?case by simp
next
  case (Cons e es)
  from train_epochs_Cons_Inr [OF Cons.prems] obtain t m2 opt2 g2 v a m3 g3 w2 m4 tls2 vls2 where
    "train_one_epoch fw m (trl e) opt g = Inr (t, m2, opt2, g2)" and
    "validate fw m2 g2 (vl e) = Inr ((v, a), m3, g3)" and
    cb: "cb w m3 e (tls @ [t]) (vls @ [v]) a = Inr (w2, m4, tls2, vls2)" and
    step: "train_epochs fw trl vl cb (m4, opt2, g3, w2, tls2, vls2) es
       = Inr (m1, opt1, g1, w1, tls1, vls1)"
    by (elim exE conjE)
  from assms [unfolded keeps_histories_def, rule_format, OF cb]
  have keep: "tls2 = tls @ [t]" "vls2 = vls @ [v]" by simp_all
  from Cons.IH [OF step] show ?case by (simp add: keep)
qed

lemma observer_returns_recording:
  fixes cb :: "('v, 'w) observer"
  assumes "observer_returns cb"
  shows "observer_returns (recording cb)"
  unfolding observer_returns_def
proof (intro allI impI)
  fix wc :: "'w \<times> int list" and m :: "'v model" and e and tls vls :: "pyfloat list" and a
  assume ne: "tls \<noteq> [] \<and> vls \<noteq> []"
  obtain w calls where wc: "wc = (w, calls)" by (cases wc)
  from assms ne obtain r where r: "cb w m e tls vls a = Inr r"
    unfolding observer_returns_def by blast
  obtain w1 m1 tls1 vls1 where "r = (w1, m1, tls1, vls1)" by (cases r)
  with r show "\<exists>r. recording cb wc m e tls vls a = Inr r"
    by (simp add: recording_def wc)
qed

lemma train_epochs_returns:
  assumes "\<forall>k\<in>set es. trl k \<noteq> [] \<and> loader_ok (vl k)" and "observer_returns cb"
  shows "\<exists>r. train_epochs fw trl vl cb (m, opt, g, w, tls, vls) es = Inr r"
  using assms(1)
proof (induction es arbitrary: m opt g w tls vls)
  case Nil
  then show ?case by simp
next
  case (Cons e es)
  from Cons.prems have trl: "trl e \<noteq> []" and vl: "loader_ok (vl e)"
    and rest: "\<forall>k\<in>set es. trl k \<noteq> [] \<and> loader_ok (vl k)" by simp_all
  obtain r where r: "train_one_epoch fw m (trl e) opt g = Inr r"
    using train_one_epoch_returns [OF trl, of fw m opt g] by auto
  obtain t s where ts: "r = (t, s)" by (cases r)
  obtain m1 opt1 g1 where s: "s = (m1, opt1, g1)" by (cases s)
  obtain v a where v: "validate fw m1 g1 (vl e) = Inr ((v, a), m1\<lparr>training := True\<rparr>, g1)"
    using validate_returns [OF vl, of fw m1 g1] by auto
  obtain q where q: "cb w (m1\<lparr>training := True\<rparr>) e (tls @ [t]) (vls @ [v]) a = Inr q"
    using assms(2) [unfolded observer_returns_def, rule_format,
                    of "tls @ [t]" "vls @ [v]" w "m1\<lparr>training := True\<rparr>" e a]
    by auto
  obtain w1 m3 tls2 vls2 where q': "q = (w1, m3, tls2, vls2)" by (cases q)
  show ?case
    using Cons.IH [OF rest, of m3 opt1 g1 w1 tls2 vls2] by (simp add: r ts s v q q' Let_def)
qed

lemma train_epochs_recording:
  "map_sum id forget_calls
     (train_epochs fw trl vl (recording cb) (m, opt, g, (w, calls), tls, vls) es)
   = train_epochs fw trl vl cb (m, opt, g, w, tls, vls) es"
proof (induction es arbitrary: m opt g w calls tls vls)
  case Nil
  then show ?case by (simp add: forget_calls_def)
next
  case (Cons e es)
  show ?case
  proof (cases "train_one_epoch fw m (trl e) opt g")
    case (Inl err)
    then show ?thesis by simp
  next
    case (Inr x)
    obtain t m1 opt1 g1 where x: "x = (t, m1, opt1, g1)" by (cases x)
    show ?thesis
    proof (cases "validate fw m1 g1 (vl e)")
      case (Inl err)
      with Inr x show ?thesis by simp
    next
      case vr: (Inr y)
      obtain v a m2 g2 where y: "y = ((v, a), m2, g2)" by (cases y) auto
      show ?thesis
      proof (cases "cb w m2 e (tls @ [t]) (vls @ [v]) a")
        case (Inl err)
        then have "recording cb (w, calls) m2 e (tls @ [t]) (vls @ [v]) a = Inl err"
          by (simp add: recording_def)
        with Inl Inr x vr y show ?thesis by (simp add: Let_def)
      next
        case cr: (Inr z)
        obtain w1 m3 tls2 vls2 where z: "z = (w1, m3, tls2, vls2)" by (cases z)
        from cr z have "recording cb (w, calls) m2 e (tls @ [t]) (vls @ [v]) a
                          = Inr ((w1, calls @ [e]), m3, tls2, vls2)"
          by (simp add: recording_def)
        with cr z Inr x vr y show ?thesis
          using Cons.IH [of m3 opt1 g2 w1 "calls @ [e]" tls2 vls2]
          by (simp add: Let_def)
      qed
    qed
  qed
qed

lemma reading_returns:
  "(\<And>w m e tls vls a. tls \<noteq> [] \<Longrightarrow> vls \<noteq> [] \<Longrightarrow> \<exists>w1. f w m e tls vls a = Inr w1)
   \<Longrightarrow> observer_returns (reading f)"
  unfolding observer_returns_def reading_def
  by (auto split: sum.splits) (metis Inl_Inr_False)

lemma reading_keeps_histories: "keeps_histories (reading f)"
  unfolding keeps_histories_def reading_def by (auto split: sum.splits)

lemma printing_observer_returns: "n \<noteq> 0 \<Longrightarrow> observer_returns (printing_observer n)"
  unfolding printing_observer_def
  by (rule reading_returns)
     (auto simp: print_loss_every_n_epochs_def py_last_def split: list.splits)

lemma upto_two: "[0 .. (2::int) - 1] = [0, 1]"
  by (simp add: upto_rec1)

lemma train_toy_two_epochs:
  "train toy tiny (\<lambda>k. [([1], [1])]) (\<lambda>k. [([1], [1])]) 7 2
         (recording (printing_observer 1)) 0 (no_files, [])
   = Inr (tiny\<lparr>grads := Some [(([1], ''weight''), [10, 784], 1), (([1], ''bias''), [10], 1)],
               params := [(([1], ''weight''), [10, 784], 2), (([1], ''bias''), [10], 2)]\<rparr>,
          9, 2,
          (no_files\<lparr>stdout := [Stats 0 (Fin 0) (Fin 0) (Fin 1),
                                 Stats 1 (Fin 0) (Fin 0) (Fin 1)]\<rparr>, [0, 1]),
          [Fin 0, Fin 0], [Fin 0, Fin 0])"
  unfolding train_def upto_two
  by (simp add: train_one_epoch_nonempty validate_eq loader_ok_def batch_pass_def call_model_def
        toy_simps eval_loss_def eval_accuracy_def eval_correct_def wrong_def py_sum_def
        recording_def printing_observer_def reading_def print_loss_every_n_epochs_def
        py_last_def Let_def tiny_def no_files_def)

text \<open>
  C3, as the code has it. The loop has no exit of its own: whatever the observer does and
  whatever the losses are, a call of the orchestrator that returns has called the observer
  once per epoch, with the epochs 0 to n_epochs - 1 in order. The two histories returned
  are the lists the observer was handed, so they have length n_epochs when the observer
  leaves those lists as they are, which is not so for every observer. The call returns
  whenever the epoch runner, the evaluator and the observer do, that is on non-empty
  sequences of non-empty batches and with an observer that does not raise on non-empty
  histories; an error of one of them ends the call. With n_epochs = 0 (or less) it
  returns the empty histories and the observer is not called. Recording the calls
  changes nothing else.
\<close>

theorem orchestrator_epochs:
  "(train fw m trl vl opt n (recording cb) g (w, []) = Inr (m1, opt1, g1, (w1, calls), tls, vls)
      \<longrightarrow> calls = [0 .. n - 1])
   \<and> (keeps_histories cb
        \<and> train fw m trl vl opt n cb g w = Inr (m2, opt2, g2, w2, tls2, vls2)
      \<longrightarrow> length tls2 = nat n \<and> length vls2 = nat n)
   \<and> ((\<forall>k\<in>{0..<n}. trl k \<noteq> [] \<and> loader_ok (vl k)) \<and> observer_returns cb
        \<longrightarrow> (\<exists>r. train fw m trl vl opt n (recording cb) g (w, []) = Inr r))
   \<and> (n \<le> 0
        \<longrightarrow> train fw m trl vl opt n (recording cb) g (w, []) = Inr (m, opt, g, (w, []), [], []))
   \<and> map_sum id forget_calls (train fw m trl vl opt n (recording cb) g (w, []))
        = train fw m trl vl opt n cb g w"
proof (intro conjI impI)
  assume a: "train fw m trl vl opt n (recording cb) g (w, [])
               = Inr (m1, opt1, g1, (w1, calls), tls, vls)"
  from train_epochs_recording_calls [OF a [unfolded train_def]]
  show "calls = [0 .. n - 1]" by simp
next
  assume a: "keeps_histories cb
             \<and> train fw m trl vl opt n cb g w = Inr (m2, opt2, g2, w2, tls2, vls2)"
  then have k: "keeps_histories cb"
    and r: "train_epochs fw trl vl cb (m, opt, g, w, [], []) [0 .. n - 1]
              = Inr (m2, opt2, g2, w2, tls2, vls2)"
    by (simp_all add: train_def)
  from train_epochs_lengths [OF k r]
  show "length tls2 = nat n" "length vls2 = nat n" by simp_all
next
  assume a: "(\<forall>k\<in>{0..<n}. trl k \<noteq> [] \<and> loader_ok (vl k)) \<and> observer_returns cb"
  then have 1: "\<forall>k\<in>set [0 .. n - 1]. trl k \<noteq> [] \<and> loader_ok (vl k)" by auto
  from a have 2: "observer_returns (recording cb)" by (simp add: observer_returns_recording)
  show "\<exists>r. train fw m trl vl opt n (recording cb) g (w, []) = Inr r"
    unfolding train_def by (rule train_epochs_returns [OF 1 2])
next
  assume "n \<le> 0"
  then show "train fw m trl vl opt n (recording cb) g (w, []) = Inr (m, opt, g, (w, []), [], [])"
    by (simp add: train_def)
next
  show "map_sum id forget_calls (train fw m trl vl opt n (recording cb) g (w, []))
        = train fw m trl vl opt n cb g w"
    by (simp add: train_def train_epochs_recording)
qed

theorem orchestrator_epochs_witness:
  "loader_ok [([1 :: int], [1 :: int])]
   \<and> observer_returns (printing_observer 1 :: (int, int world) observer)
   \<and> keeps_histories (printing_observer 1 :: (int, int world) observer)
   \<and> train toy tiny (\<lambda>k. [([1], [1])]) (\<lambda>k. [([1], [1])]) 7 2
         (recording (printing_observer 1)) 0 (no_files, [])
       = Inr (tiny\<lparr>grads := Some [(([1], ''weight''), [10, 784], 1),
                                   (([1], ''bias''), [10], 1)],
                   params := [(([1], ''weight''), [10, 784], 2),
                              (([1], ''bias''), [10], 2)]\<rparr>,
              9, 2,
              (no_files\<lparr>stdout := [Stats 0 (Fin 0) (Fin 0) (Fin 1),
                                     Stats 1 (Fin 0) (Fin 0) (Fin 1)]\<rparr>, [0, 1]),
              [Fin 0, Fin 0], [Fin 0, Fin 0])
   \<and> [0, 1] = [0 .. (2 :: int) - 1]
   \<and> train toy tiny (\<lambda>k. [([1], [1])]) (\<lambda>k. [([1], [1])]) 7 2 (printing_observer 1) 0 no_files
       = Inr (tiny\<lparr>grads := Some [(([1], ''weight''), [10, 784], 1),
                                   (([1], ''bias''), [10], 1)],
                   params := [(([1], ''weight''), [10, 784], 2),
                              (([1], ''bias''), [10], 2)]\<rparr>,
              9, 2,
              no_files\<lparr>stdout := [Stats 0 (Fin 0) (Fin 0) (Fin 1),
                                    Stats 1 (Fin 0) (Fin 0) (Fin 1)]\<rparr>,
              [Fin 0, Fin 0], [Fin 0, Fin 0])
   \<and> length [Fin 0, Fin 0] = nat 2
   \<and> train toy tiny (\<lambda>k. [([1], [1])]) (\<lambda>k. [([1], [1])]) 7 0
         (recording (printing_observer 1)) 0 (no_files, [])
       = Inr (tiny, 7, 0, (no_files, []), [], [])"
proof -
  have ok: "loader_ok [([1 :: int], [1 :: int])]" by (simp add: loader_ok_def)
  have obs: "observer_returns (printing_observer 1 :: (int, int world) observer)"
    by (rule printing_observer_returns) simp
  have keep: "keeps_histories (printing_observer 1 :: (int, int world) observer)"
    unfolding printing_observer_def by (rule reading_keeps_histories)
  note two = orchestrator_epochs
    [of toy tiny "\<lambda>k. [([1], [1])]" "\<lambda>k. [([1], [1])]" 7 2 "printing_observer 1" 0 no_files
        "tiny\<lparr>grads := Some [(([1], ''weight''), [10, 784], 1), (([1], ''bias''), [10], 1)],
              params := [(([1], ''weight''), [10, 784], 2), (([1], ''bias''), [10], 2)]\<rparr>"
        9 2
        "no_files\<lparr>stdout := [Stats 0 (Fin 0) (Fin 0) (Fin 1), Stats 1 (Fin 0) (Fin 0) (Fin 1)]\<rparr>"
        "[0, 1]" "[Fin 0, Fin 0]" "[Fin 0, Fin 0]"]
  from two train_toy_two_epochs have calls: "[0, 1] = [0 .. (2 :: int) - 1]"
    by (simp only: simp_thms)
  note plain = two [THEN conjunct2, THEN conjunct2, THEN conjunct2, THEN conjunct2]
  note zero = orchestrator_epochs
    [of toy tiny "\<lambda>k. [([1], [1])]" "\<lambda>k. [([1], [1])]" 7 0 "printing_observer 1" 0 no_files]
  from zero have z: "train toy tiny (\<lambda>k. [([1], [1])]) (\<lambda>k. [([1], [1])]) 7 0
         (recording (printing_observer 1)) 0 (no_files, [])
       = Inr (tiny, 7, 0, (no_files, []), [], [])"
    by simp
  from ok obs keep train_toy_two_epochs calls z plain [symmetric] show ?thesis
    by (simp add: forget_calls_def)
qed

text \<open>
  The claim as stated fails for an observer that empties the two lists it is handed: two
  epochs run, and the histories returned are empty.
\<close>

theorem histories_cleared_by_observer:
  "train toy tiny (\<lambda>k. [([1], [1])]) (\<lambda>k. [([1], [1])]) 7 2 clearing_observer 0 no_files
     = Inr (tiny\<lparr>grads := Some [(([1], ''weight''), [10, 784], 1), (([1], ''bias''), [10], 1)],
                 params := [(([1], ''weight''), [10, 784], 2), (([1], ''bias''), [10], 2)]\<rparr>,
            9, 2, no_files, [], [])
   \<and> length ([] :: pyfloat list) \<noteq> nat 2"
  unfolding train_def upto_two
  by (simp add: train_one_epoch_nonempty validate_eq loader_ok_def batch_pass_def call_model_def
        toy_simps eval_loss_def eval_accuracy_def eval_correct_def wrong_def py_sum_def
        clearing_observer_def Let_def tiny_def no_files_def)

text \<open>An observer that raises ends the call: the printing observer with \<open>n = 0\<close>.\<close>

lemma train_observer_raises:
  "train toy tiny (\<lambda>k. [([1], [1])]) (\<lambda>k. [([1], [1])]) 7 2 (printing_observer 0) 0 no_files
     = Inl ZeroDivisionError"
  unfolding train_def upto_two
  by (simp add: train_one_epoch_nonempty validate_eq loader_ok_def printing_observer_def
        reading_def print_loss_every_n_epochs_def)

section \<open>The checkpoint observer inside the orchestrator\<close>

lemma py_last_Inr: "xs \<noteq> [] \<Longrightarrow> py_last xs = Inr (last xs)"
  by (cases xs) (simp_all add: py_last_def)

lemma py_min_Inr: "xs \<noteq> [] \<Longrightarrow> \<exists>b. py_min xs = Inr b"
  by (cases xs) (simp_all add: py_min_def)

lemma checkpoint_observer_returns: "observer_returns (checkpoint_observer f)"
  unfolding checkpoint_observer_def
proof (rule reading_returns)
  fix w :: "'a world" and m :: "'a model" and e and tls vls :: "pyfloat list" and a
  assume ne: "vls \<noteq> []"
  from py_min_Inr [OF ne] obtain b where b: "py_min vls = Inr b" by (elim exE)
  show "\<exists>w1. save_model_if_improved w m e tls vls a f = Inr w1"
    by (simp add: save_model_if_improved_def py_last_Inr [OF ne] b)
qed

lemma checkpoint_observer_one:
  "checkpoint_observer f w m epoch tls [v] a =
     Inr (if v = NaN then w
          else torch_save (state_dict m) f (w\<lparr>stdout := stdout w @ [Best epoch v]\<rparr>),
          m, tls, [v])"
  by (cases v) (simp_all add: checkpoint_observer_def reading_def save_model_if_improved_def
        py_last_def py_min_def)

lemma checkpoint_observer_effect:
  assumes "checkpoint_observer f w m epoch tls vls a = Inr (w1, m1, tls1, vls1)"
  shows "(\<exists>ls. stdout w1 = stdout w @ ls \<and> (\<forall>l\<in>set ls. \<exists>v. l = Best epoch v))
         \<and> (files w f \<noteq> None \<longrightarrow> files w1 f \<noteq> None)
         \<and> vls1 = vls"
proof -
  from assms have s: "save_model_if_improved w m epoch tls vls a f = Inr w1" and v: "vls1 = vls"
    by (auto simp: checkpoint_observer_def reading_def split: sum.splits)
  from s have "w1 = w \<or> w1 = torch_save (state_dict m) f
                                    (w\<lparr>stdout := stdout w @ [Best epoch (last vls)]\<rparr>)"
    by (auto simp: save_model_if_improved_def py_last_def
             split: sum.splits if_splits list.splits)
  then show ?thesis
  proof
    assume "w1 = w"
    then show ?thesis by (simp add: v)
  next
    assume "w1 = torch_save (state_dict m) f (w\<lparr>stdout := stdout w @ [Best epoch (last vls)]\<rparr>)"
    then show ?thesis by (simp add: torch_save_def v)
  qed
qed

lemma train_epochs_checkpoint_log:
  "train_epochs fw trl vl (checkpoint_observer f) (m, opt, g, w, tls, vls) es
     = Inr (m1, opt1, g1, w1, tls1, vls1)
   \<Longrightarrow> (\<exists>ls. stdout w1 = stdout w @ ls \<and> (\<forall>l\<in>set ls. \<exists>e\<in>set es. \<exists>v. l = Best e v))
       \<and> (files w f \<noteq> None \<longrightarrow> files w1 f \<noteq> None)
       \<and> (\<exists>xs. vls1 = vls @ xs)"
proof (induction es arbitrary: m opt g w tls vls)
  case Nil
  then show ?case by simp
next
  case (Cons e es)
  from train_epochs_Cons_Inr [OF Cons.prems] obtain t m2 opt2 g2 v a m3 g3 w2 m4 tls2 vls2 where
    "train_one_epoch fw m (trl e) opt g = Inr (t, m2, opt2, g2)" and
    "validate fw m2 g2 (vl e) = Inr ((v, a), m3, g3)" and
    cb: "checkpoint_observer f w m3 e (tls @ [t]) (vls @ [v]) a = Inr (w2, m4, tls2, vls2)" and
    step: "train_epochs fw trl vl (checkpoint_observer f)
             (m4, opt2, g3, w2, tls2, vls2) es
           = Inr (m1, opt1, g1, w1, tls1, vls1)"
    by (elim exE conjE)
  from checkpoint_observer_effect [OF cb] obtain ls0 where
    l0: "stdout w2 = stdout w @ ls0" "\<forall>l\<in>set ls0. \<exists>v. l = Best e v"
    and f0: "files w f \<noteq> None \<longrightarrow> files w2 f \<noteq> None"
    and v2: "vls2 = vls @ [v]"
    by (elim exE conjE)
  from Cons.IH [OF step] obtain ls1 xs where
    l1: "stdout w1 = stdout w2 @ ls1" "\<forall>l\<in>set ls1. \<exists>e\<in>set es. \<exists>v. l = Best e v"
    and f1: "files w2 f \<noteq> None \<longrightarrow> files w1 f \<noteq> None"
    and x1: "vls1 = (vls @ [v]) @ xs"
    unfolding v2 by (elim exE conjE)
  have "stdout w1 = stdout w @ (ls0 @ ls1)" by (simp add: l0 l1)
  moreover have "\<forall>l\<in>set (ls0 @ ls1). \<exists>e'\<in>set (e # es). \<exists>v. l = Best e' v"
    using l0(2) l1(2) by auto
  moreover have "files w f \<noteq> None \<longrightarrow> files w1 f \<noteq> None" using f0 f1 by simp
  moreover have "vls1 = vls @ (v # xs)" by (simp add: x1)
  ultimately show ?case by blast
qed

lemma upto_first: "1 \<le> n \<Longrightarrow> [0 .. n - 1] = 0 # [1 .. n - 1]"
  by (simp add: upto_rec1)

text \<open>
  C10, as the code has it. In a run of n_epochs >= 1 with the checkpoint observer that
  returns, the line of epoch 0 is printed and the snapshot of epoch 0 written exactly when
  the validation loss of epoch 0 is a number. When it is not-a-number the comparison
  \<open>val_losses[-1] == min(val_losses)\<close> is false, although the history has the one
  element, and nothing is persisted at epoch 0. The run returns on non-empty sequences
  of non-empty batches: the observer does not raise there.
\<close>

theorem checkpoint_at_first_epoch:
  assumes "1 \<le> n"
  shows "((\<forall>k\<in>{0..<n}. trl k \<noteq> [] \<and> loader_ok (vl k))
            \<longrightarrow> (\<exists>r. train fw m trl vl opt n (checkpoint_observer f) g w = Inr r))
       \<and> (train fw m trl vl opt n (checkpoint_observer f) g w = Inr (m1, opt1, g1, w1, tls, vls)
            \<longrightarrow> vls \<noteq> []
              \<and> (\<exists>ls. stdout w1 = stdout w @ ls
                     \<and> ((\<exists>v. Best 0 v \<in> set ls) \<longleftrightarrow> hd vls \<noteq> NaN))
              \<and> (hd vls \<noteq> NaN \<longrightarrow> files w1 f \<noteq> None))"
proof (intro conjI impI)
  assume a: "\<forall>k\<in>{0..<n}. trl k \<noteq> [] \<and> loader_ok (vl k)"
  then have 1: "\<forall>k\<in>set [0 .. n - 1]. trl k \<noteq> [] \<and> loader_ok (vl k)" by auto
  show "\<exists>r. train fw m trl vl opt n (checkpoint_observer f) g w = Inr r"
    unfolding train_def by (rule train_epochs_returns [OF 1 checkpoint_observer_returns])
next
  assume r: "train fw m trl vl opt n (checkpoint_observer f) g w
               = Inr (m1, opt1, g1, w1, tls, vls)"
  from r have r': "train_epochs fw trl vl (checkpoint_observer f) (m, opt, g, w, [], [])
                     (0 # [1 .. n - 1]) = Inr (m1, opt1, g1, w1, tls, vls)"
    unfolding train_def upto_first [OF assms] .
  from train_epochs_Cons_Inr [OF r'] obtain t m2 opt2 g2 v a m3 g3 w2 m4 tls2 vls2 where
    "train_one_epoch fw m (trl 0) opt g = Inr (t, m2, opt2, g2)" and
    "validate fw m2 g2 (vl 0) = Inr ((v, a), m3, g3)" and
    cb: "checkpoint_observer f w m3 0 ([] @ [t]) ([] @ [v]) a = Inr (w2, m4, tls2, vls2)" and
    step0: "train_epochs fw trl vl (checkpoint_observer f)
             (m4, opt2, g3, w2, tls2, vls2) [1 .. n - 1]
           = Inr (m1, opt1, g1, w1, tls, vls)"
    by (elim exE conjE)
  from cb have w2: "w2 = (if v = NaN then w
                          else torch_save (state_dict m3) f (w\<lparr>stdout := stdout w @ [Best 0 v]\<rparr>))"
    and v2: "vls2 = [] @ [v]"
    by (simp_all add: checkpoint_observer_one)
  note step = step0 [unfolded v2]
  from train_epochs_checkpoint_log [OF step] obtain ls xs where
    l: "stdout w1 = stdout w2 @ ls" "\<forall>l\<in>set ls. \<exists>e\<in>set [1 .. n - 1]. \<exists>u. l = Best e u"
    and fl: "files w2 f \<noteq> None \<longrightarrow> files w1 f \<noteq> None"
    and x: "vls = ([] @ [v]) @ xs"
    by (elim exE conjE)
  have no0: "Best 0 u \<notin> set ls" for u
    using l(2) by auto
  from x have hd: "hd vls = v" and ne: "vls \<noteq> []" by simp_all
  show "vls \<noteq> []" by (rule ne)
  show "\<exists>ls. stdout w1 = stdout w @ ls \<and> ((\<exists>v. Best 0 v \<in> set ls) \<longleftrightarrow> hd vls \<noteq> NaN)"
  proof (cases "v = NaN")
    case True
    then have "stdout w1 = stdout w @ ls" by (simp add: l(1) w2)
    with no0 True hd show ?thesis by auto
  next
    case False
    then have "stdout w1 = stdout w @ (Best 0 v # ls)" by (simp add: l(1) w2 torch_save_def)
    moreover have "Best 0 v \<in> set (Best 0 v # ls)" by simp
    ultimately show ?thesis using False hd by blast
  qed
  show "files w1 f \<noteq> None" if "hd vls \<noteq> NaN"
  proof -
    from that hd have "v \<noteq> NaN" by simp
    then have "files w2 f \<noteq> None" by (simp add: w2 torch_save_def)
    with fl show ?thesis by simp
  qed
qed

lemma upto_one: "[0 .. (1::int) - 1] = [0]"
  by simp

lemma train_toy_checkpoint:
  "train toy tiny (\<lambda>k. [([1], [2])]) (\<lambda>k. [([1], [2])]) 7 1
         (checkpoint_observer ''early_stopping.pth'') 0 no_files
   = Inr (tiny\<lparr>grads := Some [(([1], ''weight''), [10, 784], 1), (([1], ''bias''), [10], 1)],
               params := [(([1], ''weight''), [10, 784], 1), (([1], ''bias''), [10], 1)]\<rparr>,
          8, 1,
          no_files\<lparr>stdout := [Best 0 (Fin 1)],
                   files := [''early_stopping.pth'' \<mapsto>
                      [(([1], ''weight''), [10, 784], 1), (([1], ''bias''), [10], 1)]]\<rparr>,
          [Fin 1], [Fin 1])"
  unfolding train_def upto_one
  by (simp add: train_one_epoch_nonempty validate_eq loader_ok_def batch_pass_def call_model_def
        toy_simps eval_loss_def eval_accuracy_def eval_correct_def wrong_def py_sum_def
        checkpoint_observer_one torch_save_def state_dict_def Let_def tiny_def no_files_def)

theorem checkpoint_at_first_epoch_witness:
  "(1 :: int) \<le> 1
   \<and> train toy tiny (\<lambda>k. [([1], [2])]) (\<lambda>k. [([1], [2])]) 7 1
         (checkpoint_observer ''early_stopping.pth'') 0 no_files
       = Inr (tiny\<lparr>grads := Some [(([1], ''weight''), [10, 784], 1),
                                   (([1], ''bias''), [10], 1)],
                   params := [(([1], ''weight''), [10, 784], 1),
                              (([1], ''bias''), [10], 1)]\<rparr>,
              8, 1,
              no_files\<lparr>stdout := [Best 0 (Fin 1)],
                       files := [''early_stopping.pth'' \<mapsto>
                          [(([1], ''weight''), [10, 784], 1), (([1], ''bias''), [10], 1)]]\<rparr>,
              [Fin 1], [Fin 1])
   \<and> hd [Fin 1] \<noteq> NaN
   \<and> files (no_files\<lparr>stdout := [Best 0 (Fin 1)],
                     files := [''early_stopping.pth'' \<mapsto>
                        [(([1], ''weight''), [10, 784], 1 :: int), (([1], ''bias''), [10], 1)]]\<rparr>)
         ''early_stopping.pth'' \<noteq> None"
proof -
  have one: "(1 :: int) \<le> 1" by simp
  note inst = checkpoint_at_first_epoch
    [OF one, of "\<lambda>k. [([1], [2])]" "\<lambda>k. [([1], [2])]" toy tiny 7 "''early_stopping.pth''" 0
        no_files
        "tiny\<lparr>grads := Some [(([1], ''weight''), [10, 784], 1), (([1], ''bias''), [10], 1)],
              params := [(([1], ''weight''), [10, 784], 1), (([1], ''bias''), [10], 1)]\<rparr>"
        8 1
        "no_files\<lparr>stdout := [Best 0 (Fin 1)],
                  files := [''early_stopping.pth'' \<mapsto>
                     [(([1], ''weight''), [10, 784], 1), (([1], ''bias''), [10], 1)]]\<rparr>"
        "[Fin 1]" "[Fin 1]"]
  from inst train_toy_checkpoint
  have "files (no_files\<lparr>stdout := [Best 0 (Fin 1)],
                     files := [''early_stopping.pth'' \<mapsto>
                        [(([1], ''weight''), [10, 784], 1 :: int), (([1], ''bias''), [10], 1)]]\<rparr>)
         ''early_stopping.pth'' \<noteq> None"
    by simp
  with train_toy_checkpoint show ?thesis by simp
qed

text \<open>
  The claim as stated fails when the loss has diverged: one epoch, the validation loss is
  not-a-number, the run returns and the world is as before, with no file and no line.
\<close>

theorem no_checkpoint_on_nan:
  "train toy_nan tiny (\<lambda>k. [([1], [1])]) (\<lambda>k. [([1], [1])]) 7 1
         (checkpoint_observer ''early_stopping.pth'') 0 no_files
   = Inr (tiny\<lparr>grads := Some [(([1], ''weight''), [10, 784], 1), (([1], ''bias''), [10], 1)],
               params := [(([1], ''weight''), [10, 784], 1), (([1], ''bias''), [10], 1)]\<rparr>,
          8, 1, no_files, [NaN], [NaN])
   \<and> files no_files ''early_stopping.pth'' = None
   \<and> stdout no_files = []"
  unfolding train_def upto_one
  by (simp add: train_one_epoch_nonempty validate_eq loader_ok_def batch_pass_def call_model_def
        toy_nan_simps eval_loss_def eval_accuracy_def eval_correct_def py_sum_def
        checkpoint_observer_one Let_def tiny_def no_files_def)

section \<open>Saving and reloading\<close>

lemma sig_of_init_params: "sig_of (fst (init_params fw g sg)) = sg"
  by (induction sg arbitrary: g) (auto simp: sig_of_def split_beta Let_def)

lemma wf_new_module: "wf_model (fst (new_module fw g mods))"
  using sig_of_init_params [of fw g "param_sig [] mods"]
  by (simp add: wf_model_def new_module_def split_beta Let_def)

text \<open>The models of both factories have the parameters their layers call for.\<close>

lemma factory_models_wf:
  "create_model fw g hidden_dims = Inr (m, g1) \<Longrightarrow> wf_model m"
  "create_model_with_dropout fw g hidden_dims p = Inr (m, g1) \<Longrightarrow> wf_model m"
  using wf_new_module
  by (auto simp: create_model_def create_model_with_dropout_def split: list.splits
           dest!: arg_cong [where f = fst])

lemma save_model_if_improved_effect:
  assumes "save_model_if_improved w m epoch tls vls a f = Inr w1"
  shows "w1 = w \<or> w1 = torch_save (state_dict m) f
                          (w\<lparr>stdout := stdout w @ [Best epoch (last vls)]\<rparr>)"
  using assms
  by (auto simp: save_model_if_improved_def py_last_def
           split: sum.splits if_splits list.splits)

text \<open>
  C8. When the checkpoint observer has persisted the snapshot of a model, reloading it
  into a model of the same layers (a freshly constructed one, whatever values its
  parameters were given) succeeds, gives that model the parameters of the saved one and
  keeps its layers, so the evaluator returns for it, on any sequence, what it returns for
  the saved model. Reloading into a model whose layers call for other parameter names or
  shapes fails, and so does reloading from a destination that holds nothing.
\<close>

theorem snapshot_round_trip:
  assumes "wf_model m" and "modules m2 = modules m"
    and "save_model_if_improved w m epoch tls vls a f = Inr w1" and "w1 \<noteq> w"
  shows "(\<exists>m3. load_model w1 m2 f = Inr m3
            \<and> state_dict m3 = state_dict m \<and> modules m3 = modules m2
            \<and> map_sum id fst (validate fw m3 g1 dl) = map_sum id fst (validate fw m g dl))
       \<and> (param_sig [] (modules m4) \<noteq> param_sig [] (modules m)
            \<longrightarrow> load_model w1 m4 f = Inl RuntimeError)
       \<and> (files w0 f0 = None \<longrightarrow> load_model w0 m4 f0 = Inl FileNotFoundError)"
proof (intro conjI impI)
  from save_model_if_improved_effect [OF assms(3)] assms(4)
  have w1: "w1 = torch_save (state_dict m) f (w\<lparr>stdout := stdout w @ [Best epoch (last vls)]\<rparr>)"
    by simp
  then have stored: "files w1 f = Some (params m)"
    by (simp add: torch_save_def state_dict_def)
  from assms(1) have sg: "sig_of (params m) = param_sig [] (modules m)"
    by (simp add: wf_model_def)
  have ld: "load_model w1 m2 f = Inr (m2\<lparr>params := params m\<rparr>)"
    by (simp add: load_model_def torch_load_def stored load_state_dict_def sg assms(2))
  have ev: "map_sum id fst (validate fw (m2\<lparr>params := params m\<rparr>) g1 dl)
              = map_sum id fst (validate fw m g dl)"
    by (rule validate_result_cong) (simp_all add: assms(2))
  show "\<exists>m3. load_model w1 m2 f = Inr m3
            \<and> state_dict m3 = state_dict m \<and> modules m3 = modules m2
            \<and> map_sum id fst (validate fw m3 g1 dl) = map_sum id fst (validate fw m g dl)"
    by (rule exI [of _ "m2\<lparr>params := params m\<rparr>"]) (simp add: ld ev state_dict_def)
  show "load_model w1 m4 f = Inl RuntimeError"
    if "param_sig [] (modules m4) \<noteq> param_sig [] (modules m)"
    using that by (auto simp: load_model_def torch_load_def stored load_state_dict_def sg)
  show "load_model w0 m4 f0 = Inl FileNotFoundError" if "files w0 f0 = None"
    using that by (simp add: load_model_def torch_load_def)
qed

theorem snapshot_round_trip_witness:
  "wf_model (tiny\<lparr>params := [(([1], ''weight''), [10, 784], 2), (([1], ''bias''), [10], 2)]\<rparr>)
   \<and> save_model_if_improved no_files
         (tiny\<lparr>params := [(([1], ''weight''), [10, 784], 2), (([1], ''bias''), [10], 2)]\<rparr>)
         0 [Fin 1] [Fin 1] (Fin 0) ''early_stopping.pth''
       = Inr (no_files\<lparr>stdout := [Best 0 (Fin 1)],
                       files := [''early_stopping.pth'' \<mapsto>
                          [(([1], ''weight''), [10, 784], 2), (([1], ''bias''), [10], 2)]]\<rparr>)
   \<and> load_model
         (no_files\<lparr>stdout := [Best 0 (Fin 1)],
                   files := [''early_stopping.pth'' \<mapsto>
                      [(([1], ''weight''), [10, 784], 2), (([1], ''bias''), [10], 2)]]\<rparr>)
         tiny ''early_stopping.pth''
       = Inr (tiny\<lparr>params := [(([1], ''weight''), [10, 784], 2), (([1], ''bias''), [10], 2)]\<rparr>)
   \<and> load_model
         (no_files\<lparr>stdout := [Best 0 (Fin 1)],
                   files := [''early_stopping.pth'' \<mapsto>
                      [(([1], ''weight''), [10, 784], 2), (([1], ''bias''), [10], 2)]]\<rparr>)
         (tiny\<lparr>modules := Sequential [Flatten, Linear 784 64, ReLU, Linear 64 10]\<rparr>)
         ''early_stopping.pth''
       = Inl RuntimeError
   \<and> load_model no_files tiny ''early_stopping.pth'' = Inl FileNotFoundError"
proof -
  let ?m = "tiny\<lparr>params := [(([1], ''weight''), [10, 784], 2), (([1], ''bias''), [10], 2)]\<rparr>"
  let ?w1 = "no_files\<lparr>stdout := [Best 0 (Fin 1)],
                      files := [''early_stopping.pth'' \<mapsto>
                         [(([1], ''weight''), [10, 784], 2 :: int), (([1], ''bias''), [10], 2)]]\<rparr>"
  let ?other = "tiny\<lparr>modules := Sequential [Flatten, Linear 784 64, ReLU, Linear 64 10]\<rparr>"
  have wf: "wf_model ?m" by (simp add: wf_model_def sig_of_def tiny_def)
  have same: "modules tiny = modules ?m" by simp
  have sv: "save_model_if_improved no_files ?m 0 [Fin 1] [Fin 1] (Fin 0) ''early_stopping.pth''
              = Inr ?w1"
    by (simp add: save_model_if_improved_def py_last_def py_min_def torch_save_def
          state_dict_def no_files_def)
  have ne: "?w1 \<noteq> no_files"
    by (simp add: no_files_def)
  have other: "param_sig [] (modules ?other) \<noteq> param_sig [] (modules ?m)"
    by (simp add: tiny_def)
  have absent: "files no_files ''early_stopping.pth'' = None"
    by (simp add: no_files_def)
  from snapshot_round_trip [OF wf same sv ne, of toy 0 "[]" 0 ?other no_files "''early_stopping.pth''"]
    other absent
  have "\<exists>m3. load_model ?w1 tiny ''early_stopping.pth'' = Inr m3 \<and> state_dict m3 = state_dict ?m
          \<and> modules m3 = modules tiny"
    and r: "load_model ?w1 ?other ''early_stopping.pth'' = Inl RuntimeError"
    and a: "load_model no_files ?other ''early_stopping.pth'' = Inl FileNotFoundError"
    by blast+
  have ld: "load_model ?w1 tiny ''early_stopping.pth'' = Inr ?m"
    by (simp add: load_model_def torch_load_def load_state_dict_def sig_of_def tiny_def)
  have a2: "load_model no_files tiny ''early_stopping.pth'' = Inl FileNotFoundError"
    by (simp add: load_model_def torch_load_def no_files_def)
  from wf sv ld r a2 show ?thesis by (simp only: simp_thms)
qed
end
